theory Spec2Isabelle
  imports Complex_Main "HOL-Library.AList"
begin

section \<open>Temporal cross-validation (deep4cast/cv.py)\<close>

text \<open>
  A shallow embedding of the classes of \<^verbatim>\<open>deep4cast/cv.py\<close>: every method becomes a
  function on an explicit object state, every \<^verbatim>\<open>raise\<close> a value \<open>Inl e\<close>, and the
  generator of \<^verbatim>\<open>FoldGenerator\<close> a finite sequence of yields that ends either
  normally or with an exception.
\<close>

subsection \<open>Exceptions and generators\<close>

datatype error =
    IndexError
  | ValueError string
  | AttributeError string
  | TypeError string
  | KeyError string
  | InvalidIndexError string
  | External string

text \<open>
  A (finite) Python generator, as the consumer sees it: \<open>Yield x g\<close> hands out \<open>x\<close>
  and continues as \<open>g\<close>, \<open>Stop\<close> is the normal end, \<open>Raise e\<close> an exception that
  leaves the generator body.
\<close>

datatype ('a, 'e) gen = Stop | Raise 'e | Yield 'a "('a, 'e) gen"

fun yielded :: "('a, 'e) gen \<Rightarrow> 'a list" where
  "yielded Stop = []"
| "yielded (Raise e) = []"
| "yielded (Yield x g) = x # yielded g"


subsection \<open>FoldGenerator\<close>

text \<open>
  \<^verbatim>\<open>self.data\<close> is a list of time series, each a 2-D array whose \<^verbatim>\<open>len\<close> is its
  number of rows (time steps); a row is kept abstract (\<open>'r\<close>), since fold generation
  never looks inside one. \<^verbatim>\<open>test_fraction\<close> is a Python float; it is modelled as a
  rational and the product \<^verbatim>\<open>data_length * self.test_fraction\<close> as exact.
\<close>

record ('r, 't) fold_generator =
  fg_data :: "'r list list"
  fg_targets :: 't
  fg_lag :: int
  fg_horizon :: int
  fg_test_fraction :: rat
  fg_n_folds :: int

text \<open>\<^verbatim>\<open>max(xs)\<close> of a list of integers: \<^verbatim>\<open>ValueError\<close> on the empty list.\<close>

fun py_max :: "int list \<Rightarrow> error + int" where
  "py_max [] = Inl (ValueError ''max() arg is an empty sequence'')"
| "py_max (x # xs) = Inr (fold max xs x)"

text \<open>\<^verbatim>\<open>int(x)\<close> of a float truncates towards zero.\<close>

definition py_int :: "rat \<Rightarrow> int" where
  "py_int q = (if 0 \<le> q then \<lfloor>q\<rfloor> else \<lceil>q\<rceil>)"

text \<open>\<^verbatim>\<open>np.arange(a, b)\<close> and \<^verbatim>\<open>range(n)\<close> on integers.\<close>

definition arange :: "int \<Rightarrow> int \<Rightarrow> int list" where
  "arange a b = [a..b - 1]"

definition py_range :: "int \<Rightarrow> int list" where
  "py_range n = [0..n - 1]"

text \<open>
  \<^verbatim>\<open>time_series[ind, :]\<close> with an integer index array: every index \<open>j\<close> must satisfy
  \<open>-n \<le> j < n\<close> for \<open>n\<close> rows, a negative one counts from the end, and any other
  index raises \<^verbatim>\<open>IndexError\<close>.
\<close>

fun take_rows :: "'r list \<Rightarrow> int list \<Rightarrow> error + 'r list" where
  "take_rows ts [] = Inr []"
| "take_rows ts (j # js) =
     (let n = int (length ts) in
      if - n \<le> j \<and> j < n then
        (case take_rows ts js of
           Inl e \<Rightarrow> Inl e
         | Inr rs \<Rightarrow> Inr (ts ! nat (if j < 0 then j + n else j) # rs))
      else Inl IndexError)"

definition train_ind :: "int \<Rightarrow> int \<Rightarrow> int \<Rightarrow> int list" where
  "train_ind test_length train_length i =
     arange (- (i + 1) * test_length - train_length) (- (i + 1) * test_length)"

definition test_ind :: "int \<Rightarrow> int \<Rightarrow> int \<Rightarrow> int list" where
  "test_ind test_length lag i =
     arange (- (i + 1) * test_length - lag) (- i * test_length)"



text \<open>
  The inner loop \<^verbatim>\<open>for time_series in self.data\<close>: the train slice, then the test
  slice of each series, appended to \<^verbatim>\<open>data_train\<close> and \<^verbatim>\<open>data_test\<close>.
\<close>

fun slice_all :: "'r list list \<Rightarrow> int list \<Rightarrow> int list \<Rightarrow> error + ('r list list \<times> 'r list list)" where
  "slice_all [] tr te = Inr ([], [])"
| "slice_all (ts # rest) tr te =
     (case take_rows ts tr of
        Inl e \<Rightarrow> Inl e
      | Inr a \<Rightarrow>
         (case take_rows ts te of
            Inl e \<Rightarrow> Inl e
          | Inr b \<Rightarrow>
             (case slice_all rest tr te of
                Inl e \<Rightarrow> Inl e
              | Inr (as, bs) \<Rightarrow> Inr (a # as, b # bs))))"

text \<open>
  \<^verbatim>\<open>utils.sequentialize\<close> is not part of the sources at hand; it is a parameter
  \<open>sq\<close> of the model, taking the stacked slices, the lag, the horizon and the
  targets, and returning the pair \<open>(X, y)\<close> or raising.
\<close>

type_synonym ('r, 't, 'x, 'y) sequentialize =
  "'r list list \<Rightarrow> int \<Rightarrow> int \<Rightarrow> 't \<Rightarrow> error + ('x \<times> 'y)"

text \<open>The body of the loop \<^verbatim>\<open>for i in range(self.n_folds)\<close>, up to the \<^verbatim>\<open>yield\<close>.\<close>

definition fold_at ::
  "('r, 't, 'x, 'y) sequentialize \<Rightarrow> ('r, 't) fold_generator \<Rightarrow> int \<Rightarrow> int \<Rightarrow> int
     \<Rightarrow> error + ('x \<times> 'x \<times> 'y \<times> 'y)" where
  "fold_at sq fg test_length train_length i =
     (case slice_all (fg_data fg)
             (train_ind test_length train_length i)
             (test_ind test_length (fg_lag fg) i) of
        Inl e \<Rightarrow> Inl e
      | Inr (data_train, data_test) \<Rightarrow>
         (case sq data_train (fg_lag fg) (fg_horizon fg) (fg_targets fg) of
            Inl e \<Rightarrow> Inl e
          | Inr (X_train, y_train) \<Rightarrow>
             (case sq data_test (fg_lag fg) (fg_horizon fg) (fg_targets fg) of
                Inl e \<Rightarrow> Inl e
              | Inr (X_test, y_test) \<Rightarrow> Inr (X_train, X_test, y_train, y_test))))"

text \<open>A \<^verbatim>\<open>for\<close> loop whose body yields once per iteration, or raises.\<close>

fun yield_each :: "(int \<Rightarrow> error + 'a) \<Rightarrow> int list \<Rightarrow> ('a, error) gen" where
  "yield_each body [] = Stop"
| "yield_each body (i # is) =
     (case body i of
        Inl e \<Rightarrow> Raise e
      | Inr x \<Rightarrow> Yield x (yield_each body is))"

definition data_length :: "('r, 't) fold_generator \<Rightarrow> error + int" where
  "data_length fg = py_max (map (\<lambda>time_series. int (length time_series)) (fg_data fg))"

definition test_length :: "('r, 't) fold_generator \<Rightarrow> int \<Rightarrow> int" where
  "test_length fg L = py_int (of_int L * fg_test_fraction fg)"

definition train_length :: "('r, 't) fold_generator \<Rightarrow> int \<Rightarrow> int" where
  "train_length fg L = L - fg_n_folds fg * test_length fg L"

definition generate_folds ::
  "('r, 't, 'x, 'y) sequentialize \<Rightarrow> ('r, 't) fold_generator
     \<Rightarrow> ('x \<times> 'x \<times> 'y \<times> 'y, error) gen" where
  "generate_folds sq fg =
     (case data_length fg of
        Inl e \<Rightarrow> Raise e
      | Inr L \<Rightarrow>
          yield_each (fold_at sq fg (test_length fg L) (train_length fg L))
            (py_range (fg_n_folds fg)))"

text \<open>
  The generator as Python runs it. \<^verbatim>\<open>__call__\<close> returns a new generator object whose
  body has not started; every \<^verbatim>\<open>next\<close> runs the body up to the following \<^verbatim>\<open>yield\<close>.
  The frame of a generator holds its local variables: nothing before the first
  \<^verbatim>\<open>next\<close>, then \<^verbatim>\<open>test_length\<close>, \<^verbatim>\<open>train_length\<close> and the rest of
  \<^verbatim>\<open>range(self.n_folds)\<close>; the attributes of \<^verbatim>\<open>self\<close> are read at each step, and a
  step returns the object as the body leaves it. A generator that has raised or
  returned is finished and answers \<^verbatim>\<open>StopIteration\<close> from then on.
\<close>

datatype 'a step = Yielded 'a | Raised error | StopIteration

datatype frame = Fresh | Suspended int int "int list" | Finished

fun loop_next ::
  "('r, 't, 'x, 'y) sequentialize \<Rightarrow> ('r, 't) fold_generator \<Rightarrow> int \<Rightarrow> int \<Rightarrow> int list
     \<Rightarrow> ('x \<times> 'x \<times> 'y \<times> 'y) step \<times> ('r, 't) fold_generator \<times> frame" where
  "loop_next sq self tlen trlen [] = (StopIteration, self, Finished)"
| "loop_next sq self tlen trlen (i # rest) =
     (case fold_at sq self tlen trlen i of
        Inl e \<Rightarrow> (Raised e, self, Finished)
      | Inr fd \<Rightarrow> (Yielded fd, self, Suspended tlen trlen rest))"

definition gen_next ::
  "('r, 't, 'x, 'y) sequentialize \<Rightarrow> ('r, 't) fold_generator \<Rightarrow> frame
     \<Rightarrow> ('x \<times> 'x \<times> 'y \<times> 'y) step \<times> ('r, 't) fold_generator \<times> frame" where
  "gen_next sq self fr =
     (case fr of
        Fresh \<Rightarrow>
         (case data_length self of
            Inl e \<Rightarrow> (Raised e, self, Finished)
          | Inr L \<Rightarrow>
              loop_next sq self (test_length self L) (train_length self L)
                (py_range (fg_n_folds self)))
      | Suspended tlen trlen rest \<Rightarrow> loop_next sq self tlen trlen rest
      | Finished \<Rightarrow> (StopIteration, self, Finished))"

text \<open>
  One \<^verbatim>\<open>FoldGenerator\<close> and the generators made from it so far; a client calls the
  object or advances one of the generators, in any order. \<open>run\<close> returns the results
  of the \<^verbatim>\<open>next\<close> calls, each with the number of its generator.
\<close>

record ('r, 't) world =
  the_object :: "('r, 't) fold_generator"
  generators :: "frame list"

datatype action = Call | Next nat

fun run ::
  "('r, 't, 'x, 'y) sequentialize \<Rightarrow> ('r, 't) world \<Rightarrow> action list
     \<Rightarrow> (nat \<times> ('x \<times> 'x \<times> 'y \<times> 'y) step) list \<times> ('r, 't) world" where
  "run sq w [] = ([], w)"
| "run sq w (Call # as) = run sq (w\<lparr>generators := generators w @ [Fresh]\<rparr>) as"
| "run sq w (Next k # as) =
     (if k < length (generators w) then
        (case gen_next sq (the_object w) (generators w ! k) of
           (r, self', fr') \<Rightarrow>
             (case run sq \<lparr>the_object = self', generators = (generators w)[k := fr']\<rparr> as of
                (rs, w') \<Rightarrow> ((k, r) # rs, w')))
      else run sq w as)"

text \<open>
  The answer of the \<open>n\<close>-th \<^verbatim>\<open>next\<close> on a generator whose behaviour is \<open>g\<close>, and the
  behaviour that a frame still has ahead.
\<close>

fun nth_step :: "('a, error) gen \<Rightarrow> nat \<Rightarrow> 'a step" where
  "nth_step Stop n = StopIteration"
| "nth_step (Raise e) 0 = Raised e"
| "nth_step (Raise e) (Suc n) = StopIteration"
| "nth_step (Yield x g) 0 = Yielded x"
| "nth_step (Yield x g) (Suc n) = nth_step g n"

definition results_of :: "nat \<Rightarrow> (nat \<times> 'a) list \<Rightarrow> 'a list" where
  "results_of k rs = map snd (filter (\<lambda>p. fst p = k) rs)"

fun gen_of_frame ::
  "('r, 't, 'x, 'y) sequentialize \<Rightarrow> ('r, 't) fold_generator \<Rightarrow> frame
     \<Rightarrow> ('x \<times> 'x \<times> 'y \<times> 'y, error) gen" where
  "gen_of_frame sq self Fresh = generate_folds sq self"
| "gen_of_frame sq self (Suspended tlen trlen rest) = yield_each (fold_at sq self tlen trlen) rest"
| "gen_of_frame sq self Finished = Stop"

text \<open>
  Inputs for the examples: a windowing transform that hands the stacked slices back
  as both \<open>X\<close> and \<open>y\<close>, two series of four samples, and a collection whose second
  series is one sample shorter than the first.
\<close>

definition no_windowing :: "('r, 't, 'r list list, 'r list list) sequentialize" where
  "no_windowing d lag horizon targets = Inr (d, d)"

definition two_series :: "(nat, unit) fold_generator" where
  "two_series =
     \<lparr>fg_data = [[1, 2, 3, 4], [5, 6, 7, 8]], fg_targets = (), fg_lag = 1, fg_horizon = 1,
      fg_test_fraction = 1 / 4, fg_n_folds = 2\<rparr>"

definition interleaved :: "action list" where
  "interleaved = [Call, Next 0, Call, Next 1, Next 0, Next 1, Next 0, Next 1]"


subsection \<open>VectorScaler\<close>

text \<open>
  Array entries are floats. The model computes with real numbers and keeps one extra
  value for what IEEE arithmetic produces where the real result does not exist
  (\<^verbatim>\<open>nan\<close>, \<^verbatim>\<open>inf\<close>): numpy divides by zero without raising. Rounding and
  overflow are not modelled. An operation with a non-finite operand is non-finite;
  IEEE arithmetic differs only for a finite number divided by an infinity, and a
  divisor here is a standard deviation, which is \<^verbatim>\<open>nan\<close> whenever it is not finite.
\<close>

datatype val = Fin real | NonFinite

fun v_add :: "val \<Rightarrow> val \<Rightarrow> val" where
  "v_add (Fin a) (Fin b) = Fin (a + b)"
| "v_add _ _ = NonFinite"

fun v_sub :: "val \<Rightarrow> val \<Rightarrow> val" where
  "v_sub (Fin a) (Fin b) = Fin (a - b)"
| "v_sub _ _ = NonFinite"

fun v_mul :: "val \<Rightarrow> val \<Rightarrow> val" where
  "v_mul (Fin a) (Fin b) = Fin (a * b)"
| "v_mul _ _ = NonFinite"

fun v_div :: "val \<Rightarrow> val \<Rightarrow> val" where
  "v_div (Fin a) (Fin b) = (if b = 0 then NonFinite else Fin (a / b))"
| "v_div _ _ = NonFinite"

fun v_sqrt :: "val \<Rightarrow> val" where
  "v_sqrt (Fin a) = (if a < 0 then NonFinite else Fin (sqrt a))"
| "v_sqrt NonFinite = NonFinite"

text \<open>
  \<^verbatim>\<open>np.mean\<close> and \<^verbatim>\<open>np.std\<close> of a 1-D sequence: the sum divided by the count
  (\<^verbatim>\<open>nan\<close> for no element), and the root of the mean squared deviation.
\<close>

definition np_mean :: "val list \<Rightarrow> val" where
  "np_mean xs = v_div (fold (\<lambda>x s. v_add s x) xs (Fin 0)) (Fin (real (length xs)))"

definition np_std :: "val list \<Rightarrow> val" where
  "np_std xs =
     v_sqrt (np_mean (map (\<lambda>x. v_mul (v_sub x (np_mean xs)) (v_sub x (np_mean xs))) xs))"

text \<open>
  A 2-D array is a list of rows, a 3-D array a list of 2-D arrays (the samples, axis
  0). An array without a sample, or whose samples have no row, has lost its trailing
  shape in this representation; the statements below are about arrays with at least
  one sample and one row.
\<close>

type_synonym arr2 = "val list list"
type_synonym arr3 = "arr2 list"

definition shape1 :: "arr3 \<Rightarrow> nat" where
  "shape1 X = (case X of [] \<Rightarrow> 0 | S # _ \<Rightarrow> length S)"

definition shape2 :: "arr3 \<Rightarrow> nat" where
  "shape2 X = (case X of [] \<Rightarrow> 0 | S # _ \<Rightarrow> (case S of [] \<Rightarrow> 0 | r # _ \<Rightarrow> length r))"

text \<open>A reduction over axis 0: entry \<open>(t, v)\<close> of the result reduces \<open>X[:, t, v]\<close>.\<close>

definition reduce_axis0 :: "(val list \<Rightarrow> val) \<Rightarrow> arr3 \<Rightarrow> arr2" where
  "reduce_axis0 f X =
     map (\<lambda>t. map (\<lambda>v. f (map (\<lambda>S. S ! t ! v) X)) [0..<shape2 X]) [0..<shape1 X]"

text \<open>All results of a list of computations, or the first exception.\<close>

fun collect :: "(error + 'a) list \<Rightarrow> error + 'a list" where
  "collect [] = Inr []"
| "collect (r # rs) =
     (case r of
        Inl e \<Rightarrow> Inl e
      | Inr x \<Rightarrow> (case collect rs of Inl e \<Rightarrow> Inl e | Inr xs \<Rightarrow> Inr (x # xs)))"

text \<open>\<^verbatim>\<open>X[:, :, targets]\<close>: the listed columns of every row, in the order listed.\<close>

definition take_cols :: "arr3 \<Rightarrow> int list \<Rightarrow> error + arr3" where
  "take_cols X targets =
     collect (map (\<lambda>S. collect (map (\<lambda>row. take_rows row targets) S)) X)"

text \<open>
  \<^verbatim>\<open>np.zeros(shape=(p, k))\<close> and \<^verbatim>\<open>np.ones\<close>: a negative dimension raises
  \<^verbatim>\<open>ValueError\<close>.
\<close>

definition np_full :: "val \<Rightarrow> int \<Rightarrow> int \<Rightarrow> error + arr2" where
  "np_full c p k =
     (if p < 0 \<or> k < 0 then Inl (ValueError ''negative dimensions are not allowed'')
      else Inr (replicate (nat p) (replicate (nat k) c)))"

text \<open>
  \<^verbatim>\<open>np.concatenate((a, b), axis=1)\<close> of two 2-D arrays: the rows are joined; the
  row counts must agree.
\<close>

definition concatenate1 :: "arr2 \<Rightarrow> arr2 \<Rightarrow> error + arr2" where
  "concatenate1 a b =
     (if length a = length b then Inr (map2 (@) a b)
      else Inl (ValueError ''all the input array dimensions except for the concatenation axis must match exactly''))"

text \<open>
  Elementwise arithmetic with numpy's broadcasting along one axis: equal lengths
  pair up, an axis of length 1 is stretched, anything else raises.
\<close>

definition broadcast :: "('a \<Rightarrow> 'b \<Rightarrow> error + 'c) \<Rightarrow> 'a list \<Rightarrow> 'b list \<Rightarrow> error + 'c list" where
  "broadcast f xs ys =
     (if length xs = length ys then collect (map2 f xs ys)
      else if length ys = 1 then collect (map (\<lambda>x. f x (hd ys)) xs)
      else if length xs = 1 then collect (map (f (hd xs)) ys)
      else Inl (ValueError ''operands could not be broadcast together''))"

definition arr2_op :: "(val \<Rightarrow> val \<Rightarrow> val) \<Rightarrow> arr2 \<Rightarrow> arr2 \<Rightarrow> error + arr2" where
  "arr2_op f A B = broadcast (broadcast (\<lambda>a b. Inr (f a b))) A B"

text \<open>A 3-D array against a 2-D one: the 2-D operand is used for every sample.\<close>

definition arr3_op :: "(val \<Rightarrow> val \<Rightarrow> val) \<Rightarrow> arr3 \<Rightarrow> arr2 \<Rightarrow> error + arr3" where
  "arr3_op f X M = collect (map (\<lambda>S. arr2_op f S M) X)"

record vector_scaler =
  vs_targets :: "int list option"
  x_mean :: "arr2 option"
  x_std :: "arr2 option"
  x_is_fitted :: bool
  y_mean :: "arr2 option"
  y_std :: "arr2 option"
  y_is_fitted :: bool

definition vector_scaler_init :: "int list option \<Rightarrow> vector_scaler" where
  "vector_scaler_init targets =
     \<lparr>vs_targets = targets, x_mean = None, x_std = None, x_is_fitted = False,
      y_mean = None, y_std = None, y_is_fitted = False\<rparr>"

text \<open>
  \<^verbatim>\<open>fit_x\<close>: the three assignments to \<^verbatim>\<open>self\<close> are the last statements, so a
  call that raises leaves the scaler as it was.
\<close>

definition fit_x_stats :: "int list option \<Rightarrow> arr3 \<Rightarrow> error + (arr2 \<times> arr2)" where
  "fit_x_stats targets X =
     (case targets of
        None \<Rightarrow> Inr (reduce_axis0 np_mean X, reduce_axis0 np_std X)
      | Some ts \<Rightarrow>
         (case take_cols X ts of
            Inl e \<Rightarrow> Inl e
          | Inr Xt \<Rightarrow>
             (let mean = reduce_axis0 np_mean Xt;
                  std = reduce_axis0 np_std Xt;
                  p = int (shape1 X);
                  k = int (shape2 X) - int (length ts)
              in case np_full (Fin 0) p k of
                   Inl e \<Rightarrow> Inl e
                 | Inr zeros \<Rightarrow>
                    (case np_full (Fin 1) p k of
                       Inl e \<Rightarrow> Inl e
                     | Inr ones \<Rightarrow>
                        (case concatenate1 mean zeros of
                           Inl e \<Rightarrow> Inl e
                         | Inr mean' \<Rightarrow>
                            (case concatenate1 std ones of
                               Inl e \<Rightarrow> Inl e
                             | Inr std' \<Rightarrow> Inr (mean', std')))))))"

definition fit_x :: "vector_scaler \<Rightarrow> arr3 \<Rightarrow> error + vector_scaler" where
  "fit_x s X =
     (case fit_x_stats (vs_targets s) X of
        Inl e \<Rightarrow> Inl e
      | Inr (mean, std) \<Rightarrow>
          Inr (s\<lparr>x_mean := Some mean, x_std := Some std, x_is_fitted := True\<rparr>))"

definition fit_y :: "vector_scaler \<Rightarrow> arr3 \<Rightarrow> error + vector_scaler" where
  "fit_y s y =
     Inr (s\<lparr>y_mean := Some (reduce_axis0 np_mean y),
            y_std := Some (reduce_axis0 np_std y),
            y_is_fitted := True\<rparr>)"

text \<open>
  \<open>(X - mean) / std\<close>; an operand that is still \<^verbatim>\<open>None\<close> raises \<^verbatim>\<open>TypeError\<close>
  at the subtraction.
\<close>

definition standardize :: "arr2 option \<Rightarrow> arr2 option \<Rightarrow> arr3 \<Rightarrow> error + arr3" where
  "standardize mean std X =
     (case mean of
        None \<Rightarrow> Inl (TypeError ''unsupported operand type(s) for -'')
      | Some m \<Rightarrow>
         (case arr3_op v_sub X m of
            Inl e \<Rightarrow> Inl e
          | Inr D \<Rightarrow>
             (case std of
                None \<Rightarrow> Inl (TypeError ''unsupported operand type(s) for /'')
              | Some sd \<Rightarrow> arr3_op v_div D sd)))"

definition transform_x :: "vector_scaler \<Rightarrow> arr3 \<Rightarrow> error + arr3" where
  "transform_x s X = standardize (x_mean s) (x_std s) X"

definition transform_y :: "vector_scaler \<Rightarrow> arr3 \<Rightarrow> error + arr3" where
  "transform_y s y = standardize (y_mean s) (y_std s) y"

text \<open>
  \<^verbatim>\<open>fit_transform_x\<close> and \<^verbatim>\<open>fit_transform_y\<close> return the result together with the
  scaler, which stays fitted when only the transform raises.
\<close>

definition fit_transform_x :: "vector_scaler \<Rightarrow> arr3 \<Rightarrow> (error + arr3) \<times> vector_scaler" where
  "fit_transform_x s X =
     (case fit_x s X of
        Inl e \<Rightarrow> (Inl e, s)
      | Inr s' \<Rightarrow> (transform_x s' X, s'))"

definition fit_transform_y :: "vector_scaler \<Rightarrow> arr3 \<Rightarrow> (error + arr3) \<times> vector_scaler" where
  "fit_transform_y s y =
     (case fit_y s y of
        Inl e \<Rightarrow> (Inl e, s)
      | Inr s' \<Rightarrow> (transform_y s' y, s'))"

text \<open>\<open>X * std + mean\<close>.\<close>

definition unstandardize :: "arr2 option \<Rightarrow> arr2 option \<Rightarrow> arr3 \<Rightarrow> error + arr3" where
  "unstandardize mean std X =
     (case std of
        None \<Rightarrow> Inl (TypeError ''unsupported operand type(s) for *'')
      | Some sd \<Rightarrow>
         (case arr3_op v_mul X sd of
            Inl e \<Rightarrow> Inl e
          | Inr P \<Rightarrow>
             (case mean of
                None \<Rightarrow> Inl (TypeError ''unsupported operand type(s) for +'')
              | Some m \<Rightarrow> arr3_op v_add P m)))"

definition inverse_transform_x :: "vector_scaler \<Rightarrow> arr3 \<Rightarrow> error + arr3" where
  "inverse_transform_x s X =
     (if x_is_fitted s then unstandardize (x_mean s) (x_std s) X
      else Inl (ValueError ''Not fitted on X.''))"

definition inverse_transform_y :: "vector_scaler \<Rightarrow> arr3 \<Rightarrow> error + arr3" where
  "inverse_transform_y s y =
     (if y_is_fitted s then unstandardize (y_mean s) (y_std s) y
      else Inl (ValueError ''Not fitted on y.''))"

text \<open>
  A history of method calls on one scaler. \<open>after_call\<close> is the scaler once the call
  has returned or raised; \<open>fit_x_returned\<close> says that some call in the history ran
  \<^verbatim>\<open>fit_x\<close> to its end (directly or through \<^verbatim>\<open>fit_transform_x\<close>).
\<close>

datatype vs_call =
    Fit_x arr3
  | Fit_y arr3
  | Transform_x arr3
  | Transform_y arr3
  | Fit_transform_x arr3
  | Fit_transform_y arr3
  | Inverse_transform_x arr3
  | Inverse_transform_y arr3

definition returned :: "error + 'a \<Rightarrow> bool" where
  "returned r = (case r of Inl e \<Rightarrow> False | Inr x \<Rightarrow> True)"

fun after_call :: "vector_scaler \<Rightarrow> vs_call \<Rightarrow> vector_scaler" where
  "after_call s (Fit_x X) = (case fit_x s X of Inl e \<Rightarrow> s | Inr s' \<Rightarrow> s')"
| "after_call s (Fit_y y) = (case fit_y s y of Inl e \<Rightarrow> s | Inr s' \<Rightarrow> s')"
| "after_call s (Fit_transform_x X) = snd (fit_transform_x s X)"
| "after_call s (Fit_transform_y y) = snd (fit_transform_y s y)"
| "after_call s _ = s"

fun runs_fit_x :: "vector_scaler \<Rightarrow> vs_call \<Rightarrow> bool" where
  "runs_fit_x s (Fit_x X) = returned (fit_x s X)"
| "runs_fit_x s (Fit_transform_x X) = returned (fit_x s X)"
| "runs_fit_x s _ = False"

fun runs_fit_y :: "vector_scaler \<Rightarrow> vs_call \<Rightarrow> bool" where
  "runs_fit_y s (Fit_y y) = returned (fit_y s y)"
| "runs_fit_y s (Fit_transform_y y) = returned (fit_y s y)"
| "runs_fit_y s _ = False"

fun after_calls :: "vector_scaler \<Rightarrow> vs_call list \<Rightarrow> vector_scaler" where
  "after_calls s [] = s"
| "after_calls s (c # cs) = after_calls (after_call s c) cs"

fun fit_x_returned :: "vector_scaler \<Rightarrow> vs_call list \<Rightarrow> bool" where
  "fit_x_returned s [] = False"
| "fit_x_returned s (c # cs) = (runs_fit_x s c \<or> fit_x_returned (after_call s c) cs)"

fun fit_y_returned :: "vector_scaler \<Rightarrow> vs_call list \<Rightarrow> bool" where
  "fit_y_returned s [] = False"
| "fit_y_returned s (c # cs) = (runs_fit_y s c \<or> fit_y_returned (after_call s c) cs)"

subsection \<open>MetricsEvaluator\<close>

text \<open>
  The module \<^verbatim>\<open>custom_metrics\<close> is not part of the sources at hand: it is a
  parameter \<open>cm\<close>, a lookup from attribute names to metric functions
  (\<^verbatim>\<open>getattr\<close> raises on an unknown name), and a metric function may raise.
  \<^verbatim>\<open>eval_results\<close> is a dictionary, here an association list updated in place; a
  tearsheet is the list of its rows, and a column without an entry in a row is the
  missing value the data frame shows there. \<^verbatim>\<open>print\<close> appends a line to the output.
  Writing the pickle is a parameter as well: it may raise.
\<close>

datatype 'v line =
    Results_for string 'v
  | Not_a_valid_metric string
  | Evaluation_took

type_synonym 'v row = "(string \<times> 'v) list"

record 'v metrics_evaluator =
  metrics :: "string list"
  tearsheet :: "'v row list"
  filename :: "string option"

definition metrics_evaluator_init :: "string list \<Rightarrow> string option \<Rightarrow> 'v metrics_evaluator" where
  "metrics_evaluator_init ms fname = \<lparr>metrics = ms, tearsheet = [], filename = fname\<rparr>"

fun evaluate_metrics ::
  "(string \<Rightarrow> ('s \<Rightarrow> 'u \<Rightarrow> error + 'v) option) \<Rightarrow> 's \<Rightarrow> 'u \<Rightarrow> bool \<Rightarrow> string list
     \<Rightarrow> 'v row \<times> 'v line list \<Rightarrow> 'v row \<times> 'v line list" where
  "evaluate_metrics cm y_samples y_truth verbose [] acc = acc"
| "evaluate_metrics cm y_samples y_truth verbose (metric # rest) (eval_results, out) =
     (case cm metric of
        None \<Rightarrow>
          evaluate_metrics cm y_samples y_truth verbose rest
            (eval_results, out @ [Not_a_valid_metric metric])
      | Some eval_func \<Rightarrow>
         (case eval_func y_samples y_truth of
            Inl e \<Rightarrow>
              evaluate_metrics cm y_samples y_truth verbose rest
                (eval_results, out @ [Not_a_valid_metric metric])
          | Inr v \<Rightarrow>
              evaluate_metrics cm y_samples y_truth verbose rest
                (AList.update metric v eval_results,
                 if verbose then out @ [Results_for metric v] else out)))"

text \<open>\<^verbatim>\<open>if self.filename\<close>: neither \<^verbatim>\<open>None\<close> nor the empty string.\<close>

definition truthy :: "string option \<Rightarrow> bool" where
  "truthy f = (case f of None \<Rightarrow> False | Some n \<Rightarrow> n \<noteq> [])"

text \<open>
  \<^verbatim>\<open>self.tearsheet.append(eval_results, ignore_index=True)\<close>: the data frame with
  one more row, built from the dictionary. The call aligns the columns of the frame
  with the keys of the dictionary, which pandas refuses for a frame with a repeated
  column label.
\<close>

definition df_append :: "string list \<Rightarrow> 'v row list \<Rightarrow> 'v row \<Rightarrow> error + 'v row list" where
  "df_append columns rows r =
     (if distinct columns then Inr (rows @ [r])
      else Inl (InvalidIndexError ''Reindexing only valid with uniquely valued Index objects''))"

text \<open>
  \<^verbatim>\<open>MetricsEvaluator.evaluate\<close>: the exception it ends with, if any, the evaluator
  afterwards, and the lines printed. The \<^verbatim>\<open>append\<close> is outside the \<^verbatim>\<open>try\<close>: when it
  raises, the tearsheet is not assigned.
\<close>

definition metrics_evaluator_evaluate ::
  "(string \<Rightarrow> ('s \<Rightarrow> 'u \<Rightarrow> error + 'v) option) \<Rightarrow> ('v row list \<Rightarrow> string \<Rightarrow> error option)
     \<Rightarrow> 'v metrics_evaluator \<Rightarrow> 's \<Rightarrow> 'u \<Rightarrow> bool
     \<Rightarrow> error option \<times> 'v metrics_evaluator \<times> 'v line list" where
  "metrics_evaluator_evaluate cm to_pickle ev y_samples y_truth verbose =
     (let (eval_results, out) =
            evaluate_metrics cm y_samples y_truth verbose (metrics ev) ([], [])
      in case df_append (metrics ev) (tearsheet ev) eval_results of
           Inl e \<Rightarrow> (Some e, ev, out)
         | Inr t \<Rightarrow>
            (let ev' = ev\<lparr>tearsheet := t\<rparr>
             in (if truthy (filename ev') then to_pickle (tearsheet ev') (the (filename ev'))
                 else None,
                 ev', out)))"

definition reset :: "'v metrics_evaluator \<Rightarrow> 'v metrics_evaluator" where
  "reset ev = ev\<lparr>tearsheet := []\<rparr>"

subsection \<open>CrossValidator\<close>

text \<open>
  The forecaster is an external object: its flag \<^verbatim>\<open>_is_fitted\<close> and the rest of its
  state, with \<^verbatim>\<open>fit\<close> and \<^verbatim>\<open>predict\<close> as parameters. The collaborators of a run are
  collected in one record.
\<close>

record 'm forecaster =
  is_fitted :: bool
  internals :: 'm

record ('m, 'v) collaborators =
  fit :: "'m forecaster \<Rightarrow> arr3 \<Rightarrow> arr3 \<Rightarrow> error + 'm forecaster"
  predict :: "'m forecaster \<Rightarrow> arr3 \<Rightarrow> int \<Rightarrow> error + arr3"
  custom_metrics :: "string \<Rightarrow> (arr3 \<Rightarrow> arr3 \<Rightarrow> error + 'v) option"
  to_pickle :: "'v row list \<Rightarrow> string \<Rightarrow> error option"

text \<open>
  The objects a \<^verbatim>\<open>CrossValidator\<close> holds and mutates, the lines printed so far, and
  a record of the calls of \<^verbatim>\<open>forecaster.fit\<close>: the forecaster as each call received it.
\<close>

record ('m, 'v) cv_state =
  forecaster :: "'m forecaster"
  scaler :: "vector_scaler option"
  evaluator :: "'v metrics_evaluator"
  printed :: "'v line list"
  fit_calls :: "'m forecaster list"

type_synonym fold = "arr3 \<times> arr3 \<times> arr3 \<times> arr3"

text \<open>The block guarded by \<^verbatim>\<open>if self.scaler\<close>.\<close>

definition scale_fold ::
  "vector_scaler option \<Rightarrow> arr3 \<Rightarrow> arr3 \<Rightarrow> arr3
     \<Rightarrow> (error + arr3 \<times> arr3 \<times> arr3) \<times> vector_scaler option" where
  "scale_fold sc X_train X_test y_train =
     (case sc of
        None \<Rightarrow> (Inr (X_train, X_test, y_train), None)
      | Some s \<Rightarrow>
         (case fit_transform_x s X_train of
            (Inl e, s1) \<Rightarrow> (Inl e, Some s1)
          | (Inr X_train', s1) \<Rightarrow>
             (case transform_x s1 X_test of
                Inl e \<Rightarrow> (Inl e, Some s1)
              | Inr X_test' \<Rightarrow>
                 (case fit_transform_y s1 y_train of
                    (Inl e, s2) \<Rightarrow> (Inl e, Some s2)
                  | (Inr y_train', s2) \<Rightarrow> (Inr (X_train', X_test', y_train'), Some s2)))))"

text \<open>
  From the prediction on: \<^verbatim>\<open>self.scaler.inverse_transform_y\<close> is reached whatever
  \<^verbatim>\<open>self.scaler\<close> is, and looking the method up on \<^verbatim>\<open>None\<close> raises
  \<^verbatim>\<open>AttributeError\<close>.
\<close>

definition predict_and_score ::
  "('m, 'v) collaborators \<Rightarrow> int \<Rightarrow> bool \<Rightarrow> ('m, 'v) cv_state \<Rightarrow> arr3 \<Rightarrow> arr3
     \<Rightarrow> error option \<times> ('m, 'v) cv_state" where
  "predict_and_score c n_samples verbose st X_test y_test =
     (case predict c (forecaster st) X_test n_samples of
        Inl e \<Rightarrow> (Some e, st)
      | Inr y_pred_samples \<Rightarrow>
         (case scaler st of
            None \<Rightarrow>
              (Some (AttributeError ''NoneType object has no attribute inverse_transform_y''), st)
          | Some s \<Rightarrow>
             (case inverse_transform_y s y_pred_samples of
                Inl e \<Rightarrow> (Some e, st)
              | Inr y_pred_samples' \<Rightarrow>
                 (case metrics_evaluator_evaluate (custom_metrics c) (to_pickle c)
                         (evaluator st) y_pred_samples' y_test verbose of
                    (Some e, ev', out) \<Rightarrow>
                      (Some e, st\<lparr>evaluator := ev', printed := printed st @ out\<rparr>)
                  | (None, ev', out) \<Rightarrow>
                      (None, st\<lparr>evaluator := ev',
                                printed := printed st @ out @
                                  (if verbose then [Evaluation_took] else [])\<rparr>)))))"

text \<open>The body of the loop over the folds.\<close>

definition evaluate_fold ::
  "('m, 'v) collaborators \<Rightarrow> int \<Rightarrow> bool \<Rightarrow> ('m, 'v) cv_state \<Rightarrow> fold
     \<Rightarrow> error option \<times> ('m, 'v) cv_state" where
  "evaluate_fold c n_samples verbose st fd =
     (case fd of (X_train, X_test, y_train, y_test) \<Rightarrow>
        (let st1 = st\<lparr>forecaster := (forecaster st)\<lparr>is_fitted := False\<rparr>\<rparr> in
         case scale_fold (scaler st1) X_train X_test y_train of
           (Inl e, sc) \<Rightarrow> (Some e, st1\<lparr>scaler := sc\<rparr>)
         | (Inr (X_train', X_test', y_train'), sc) \<Rightarrow>
            (let st2 = st1\<lparr>scaler := sc, fit_calls := fit_calls st1 @ [forecaster st1]\<rparr> in
             case fit c (forecaster st2) X_train' y_train' of
               Inl e \<Rightarrow> (Some e, st2)
             | Inr f' \<Rightarrow>
                 predict_and_score c n_samples verbose (st2\<lparr>forecaster := f'\<rparr>) X_test' y_test)))"

fun evaluate_folds ::
  "('m, 'v) collaborators \<Rightarrow> int \<Rightarrow> bool \<Rightarrow> ('m, 'v) cv_state \<Rightarrow> (fold, error) gen
     \<Rightarrow> error option \<times> ('m, 'v) cv_state" where
  "evaluate_folds c n_samples verbose st Stop = (None, st)"
| "evaluate_folds c n_samples verbose st (Raise e) = (Some e, st)"
| "evaluate_folds c n_samples verbose st (Yield fd g) =
     (case evaluate_fold c n_samples verbose st fd of
        (Some e, st') \<Rightarrow> (Some e, st')
      | (None, st') \<Rightarrow> evaluate_folds c n_samples verbose st' g)"

text \<open>
  \<^verbatim>\<open>CrossValidator.evaluate\<close>; \<open>folds\<close> is what \<^verbatim>\<open>self.fold_generator()\<close> returns.
  The result is the tearsheet or the exception, with the state the run leaves.
\<close>

definition cross_validator_evaluate ::
  "('m, 'v) collaborators \<Rightarrow> ('m, 'v) cv_state \<Rightarrow> (fold, error) gen \<Rightarrow> int \<Rightarrow> bool
     \<Rightarrow> (error + 'v row list) \<times> ('m, 'v) cv_state" where
  "cross_validator_evaluate c st folds n_samples verbose =
     (case evaluate_folds c n_samples verbose (st\<lparr>evaluator := reset (evaluator st)\<rparr>) folds of
        (Some e, st') \<Rightarrow> (Inl e, st')
      | (None, st') \<Rightarrow> (Inr (tearsheet (evaluator st')), st'))"

subsection \<open>Optimizer\<close>

text \<open>
  An object whose attributes are set by name is its attribute dictionary. The
  forecaster of an \<^verbatim>\<open>Optimizer\<close> has attributes of its own, a \<^verbatim>\<open>model\<close> and an
  \<^verbatim>\<open>_optimizer\<close>. What \<^verbatim>\<open>getargspec\<close> reports for the three classes is a parameter.
\<close>

datatype pyval = IntV int | RatV rat | StrV string

type_synonym attrs = "(string \<times> pyval) list"

record opt_forecaster =
  forecaster_attrs :: attrs
  model_attrs :: attrs
  optimizer_attrs :: attrs

record arg_specs =
  model_args :: "string list"
  forecaster_args :: "string list"
  optimizer_args :: "string list"

definition MODEL_ARGS :: "string list" where
  "MODEL_ARGS = [''filters'', ''num_layers'']"

definition OPTIMIZER_ARGS :: "string list" where
  "OPTIMIZER_ARGS = [''lr'']"

definition FORECASTER_ARGS :: "string list" where
  "FORECASTER_ARGS = [''epochs'', ''batch_size'']"

definition get_args :: "arg_specs \<Rightarrow> (string \<times> string list) list" where
  "get_args sp =
     [(''model'', model_args sp),
      (''forecaster'', forecaster_args sp),
      (''optimizer'', optimizer_args sp)]"

definition getitem :: "(string \<times> 'a) list \<Rightarrow> string \<Rightarrow> error + 'a" where
  "getitem d k = (case map_of d k of None \<Rightarrow> Inl (KeyError k) | Some v \<Rightarrow> Inr v)"

text \<open>
  \<^verbatim>\<open>for key, value in args\<close> iterates over the keys of the dictionary, and each key,
  a string, is unpacked into two targets: that needs a string of exactly two
  characters.
\<close>

definition unpack2 :: "string \<Rightarrow> error + (string \<times> string)" where
  "unpack2 item =
     (case item of
        [a, b] \<Rightarrow> Inr ([a], [b])
      | _ \<Rightarrow>
         (if length item < 2 then Inl (ValueError ''not enough values to unpack (expected 2)'')
          else Inl (ValueError ''too many values to unpack (expected 2)'')))"

text \<open>The \<^verbatim>\<open>if\<close>/\<^verbatim>\<open>elif\<close> chain of the loop body.\<close>

definition route ::
  "(string \<times> string list) list \<Rightarrow> opt_forecaster \<Rightarrow> string \<Rightarrow> string \<Rightarrow> error + opt_forecaster" where
  "route args f key value =
     (case getitem args ''model'' of
        Inl e \<Rightarrow> Inl e
      | Inr margs \<Rightarrow>
         (if key \<in> set margs \<and> key \<in> set MODEL_ARGS then
            Inr (f\<lparr>model_attrs := AList.update key (StrV value) (model_attrs f)\<rparr>)
          else
            (case getitem args ''forecaster'' of
               Inl e \<Rightarrow> Inl e
             | Inr fargs \<Rightarrow>
                (if key \<in> set fargs \<and> key \<in> set OPTIMIZER_ARGS then
                   Inr (f\<lparr>optimizer_attrs := AList.update key (StrV value) (optimizer_attrs f)\<rparr>)
                 else if key \<in> set fargs \<and> key \<in> set FORECASTER_ARGS then
                   Inr (f\<lparr>forecaster_attrs := AList.update key (StrV value) (forecaster_attrs f)\<rparr>)
                 else Inl (ValueError (key @ '' not a valid argument''))))))"

fun route_all ::
  "(string \<times> string list) list \<Rightarrow> opt_forecaster \<Rightarrow> string list \<Rightarrow> error option \<times> opt_forecaster" where
  "route_all args f [] = (None, f)"
| "route_all args f (item # items) =
     (case unpack2 item of
        Inl e \<Rightarrow> (Some e, f)
      | Inr (key, value) \<Rightarrow>
         (case route args f key value of
            Inl e \<Rightarrow> (Some e, f)
          | Inr f' \<Rightarrow> route_all args f' items))"

text \<open>
  \<^verbatim>\<open>Optimizer.get_objective\<close>. Its header \<^verbatim>\<open>def get_objective(self, **args, space)\<close>
  puts a parameter after \<^verbatim>\<open>**args\<close>, which the Python grammar does not allow; the
  body is modelled as it is written. The first statement replaces the trial's
  keyword arguments by \<^verbatim>\<open>self.get_args()\<close>; after the loop the function defines
  \<^verbatim>\<open>objective\<close> and ends without returning it.
\<close>

definition get_objective ::
  "arg_specs \<Rightarrow> opt_forecaster \<Rightarrow> (string \<times> pyval) list \<Rightarrow> 'sp
     \<Rightarrow> error option \<times> opt_forecaster" where
  "get_objective sp f trial space =
     (let args = get_args sp in route_all args f (map fst args))"

subsection \<open>Reference values and example inputs\<close>

text \<open>
  The value a metric contributes to a row: the result of its function, when the name
  resolves and the function returns.
\<close>

definition metric_value ::
  "(string \<Rightarrow> ('s \<Rightarrow> 'u \<Rightarrow> error + 'v) option) \<Rightarrow> 's \<Rightarrow> 'u \<Rightarrow> string \<Rightarrow> 'v option" where
  "metric_value cm y_samples y_truth metric =
     (case cm metric of
        None \<Rightarrow> None
      | Some eval_func \<Rightarrow>
         (case eval_func y_samples y_truth of Inl e \<Rightarrow> None | Inr v \<Rightarrow> Some v))"

text \<open>
  Example collaborators: a metrics module with two metrics that return and one that
  raises, a forecaster whose \<^verbatim>\<open>fit\<close> sets the flag and whose \<^verbatim>\<open>predict\<close> hands its
  input back, an array of two samples, and a fold made of it.
\<close>

definition written :: "'v row list \<Rightarrow> string \<Rightarrow> error option" where
  "written t f = None"

definition example_metrics :: "string \<Rightarrow> (arr3 \<Rightarrow> arr3 \<Rightarrow> error + val) option" where
  "example_metrics name =
     (if name = ''mape'' then Some (\<lambda>y_samples y_truth. Inr (Fin 1))
      else if name = ''rmse'' then Some (\<lambda>y_samples y_truth. Inr (Fin 2))
      else if name = ''broken'' then Some (\<lambda>y_samples y_truth. Inl (External ''division by zero''))
      else None)"

definition example_collaborators :: "(unit, val) collaborators" where
  "example_collaborators =
     \<lparr>fit = (\<lambda>f X y. Inr (f\<lparr>is_fitted := True\<rparr>)),
      predict = (\<lambda>f X n. Inr X),
      custom_metrics = (\<lambda>m. None),
      to_pickle = (\<lambda>t f. None)\<rparr>"

definition example_state :: "vector_scaler option \<Rightarrow> (unit, val) cv_state" where
  "example_state sc =
     \<lparr>forecaster = \<lparr>is_fitted = True, internals = ()\<rparr>, scaler = sc,
      evaluator = metrics_evaluator_init [] None, printed = [], fit_calls = []\<rparr>"

definition example_array :: arr3 where
  "example_array = [[[Fin 1]], [[Fin 3]]]"

definition example_fold :: fold where
  "example_fold = (example_array, example_array, example_array, example_array)"

text \<open>
  Shapes and values of arrays: two 2-D arrays of the same shape, a 3-D array whose
  samples all have the shape of given statistics, arrays without a non-finite entry,
  and statistics that are finite and not zero.
\<close>

definition same_shape2 :: "arr2 \<Rightarrow> arr2 \<Rightarrow> bool" where
  "same_shape2 A B = list_all2 (\<lambda>a b. length a = length b) A B"

definition fitted_shape :: "arr2 \<Rightarrow> arr3 \<Rightarrow> bool" where
  "fitted_shape M X = list_all (\<lambda>S. same_shape2 S M) X"





text \<open>A 3-D array of shape \<open>(n, p, q)\<close> for some \<open>n\<close>.\<close>

definition rect3 :: "nat \<Rightarrow> nat \<Rightarrow> arr3 \<Rightarrow> bool" where
  "rect3 p q X = list_all (\<lambda>S. length S = p \<and> list_all (\<lambda>r. length r = q) S) X"

text \<open>The statistics a fitted scaler holds: both present, of one shape.\<close>

definition x_stats_ok :: "vector_scaler \<Rightarrow> bool" where
  "x_stats_ok s = (\<exists>m d. x_mean s = Some m \<and> x_std s = Some d \<and> same_shape2 m d)"

definition y_stats_ok :: "vector_scaler \<Rightarrow> bool" where
  "y_stats_ok s = (\<exists>m d. y_mean s = Some m \<and> y_std s = Some d \<and> same_shape2 m d)"


definition mixed_array :: arr3 where
  "mixed_array = [[[Fin 5, Fin 1]], [[Fin 5, Fin 3]]]"

text \<open>
  A forecaster that keeps a diary. For any collaborators \<open>c\<close>, \<open>spy c\<close> behaves as
  \<open>c\<close>, but its \<^verbatim>\<open>fit\<close> also notes, in the forecaster it returns, the flag of the
  forecaster it was called with. \<open>erase\<close> and \<open>erase_state\<close> forget the diary, and
  \<open>observed\<close> reads it.
\<close>

definition erase :: "('m \<times> bool list) forecaster \<Rightarrow> 'm forecaster" where
  "erase f = \<lparr>is_fitted = is_fitted f, internals = fst (internals f)\<rparr>"

definition spy :: "('m, 'v) collaborators \<Rightarrow> ('m \<times> bool list, 'v) collaborators" where
  "spy c =
     \<lparr>fit = (\<lambda>f X y.
         case fit c (erase f) X y of
           Inl e \<Rightarrow> Inl e
         | Inr f' \<Rightarrow>
             Inr \<lparr>is_fitted = is_fitted f',
                  internals = (internals f', snd (internals f) @ [is_fitted f])\<rparr>),
      predict = (\<lambda>f X n. predict c (erase f) X n),
      custom_metrics = custom_metrics c,
      to_pickle = to_pickle c\<rparr>"

definition observed :: "('m \<times> bool list, 'v) cv_state \<Rightarrow> bool list" where
  "observed st = snd (internals (forecaster st))"

definition erase_state :: "('m \<times> bool list, 'v) cv_state \<Rightarrow> ('m, 'v) cv_state" where
  "erase_state st =
     \<lparr>forecaster = erase (forecaster st), scaler = scaler st, evaluator = evaluator st,
      printed = printed st, fit_calls = map erase (fit_calls st)\<rparr>"

definition example_spy_state :: "vector_scaler option \<Rightarrow> (unit \<times> bool list, val) cv_state" where
  "example_spy_state sc =
     \<lparr>forecaster = \<lparr>is_fitted = True, internals = ((), [])\<rparr>, scaler = sc,
      evaluator = metrics_evaluator_init [] None, printed = [], fit_calls = []\<rparr>"

text \<open>
  A call that enters \<^verbatim>\<open>fit_x\<close>, whether or not it returns, and an array of three
  features.
\<close>

fun calls_fit_x :: "vs_call \<Rightarrow> bool" where
  "calls_fit_x (Fit_x X) = True"
| "calls_fit_x (Fit_transform_x X) = True"
| "calls_fit_x _ = False"

definition wide_array :: arr3 where
  "wide_array = [[[Fin 1, Fin 2, Fin 3]]]"

section \<open>Properties\<close>

subsection \<open>FoldGenerator: indexing and the generator loop\<close>

lemma take_rows_Inr_iff:
  "take_rows ts js = Inr rs \<longleftrightarrow>
     (\<forall>j\<in>set js. - int (length ts) \<le> j \<and> j < int (length ts)) \<and>
     rs = map (\<lambda>j. ts ! nat (if j < 0 then j + int (length ts) else j)) js"
proof (induction js arbitrary: rs)
  case Nil
  show ?case by auto
next
  case (Cons j js)
  show ?case
  proof (cases "take_rows ts js")
    case (Inl e)
    with Cons show ?thesis by (auto simp: Let_def)
  next
    case (Inr rs')
    with Cons[of rs'] show ?thesis by (auto simp: Let_def)
  qed
qed

lemma take_rows_Inl:
  "take_rows ts js = Inl e \<Longrightarrow> e = IndexError"
  by (induction js) (auto simp: Let_def split: if_splits sum.splits)












lemma py_int_floor: "0 \<le> q \<Longrightarrow> py_int q = \<lfloor>q\<rfloor>"
  by (simp add: py_int_def)










subsection \<open>FoldGenerator: number of folds and disjoint test blocks\<close>




subsection \<open>FoldGenerator: the windows of a fold\<close>



subsection \<open>FoldGenerator: restartability\<close>

lemma loop_next_spec:
  assumes "loop_next sq self tlen trlen rest = (r, self', fr')"
  shows "self' = self \<and> r = nth_step (yield_each (fold_at sq self tlen trlen) rest) 0
       \<and> (\<forall>n. nth_step (gen_of_frame sq self fr') n
                = nth_step (yield_each (fold_at sq self tlen trlen) rest) (Suc n))"
  using assms by (cases rest) (auto split: sum.splits)

lemma gen_next_spec:
  assumes "gen_next sq self fr = (r, self', fr')"
  shows "self' = self \<and> r = nth_step (gen_of_frame sq self fr) 0
       \<and> (\<forall>n. nth_step (gen_of_frame sq self fr') n = nth_step (gen_of_frame sq self fr) (Suc n))"
proof (cases fr)
  case Fresh
  show ?thesis
  proof (cases "data_length self")
    case (Inl e)
    with assms Fresh show ?thesis by (auto simp: gen_next_def generate_folds_def)
  next
    case (Inr L)
    with assms Fresh have
      "loop_next sq self (test_length self L) (train_length self L) (py_range (fg_n_folds self))
         = (r, self', fr')"
      by (simp add: gen_next_def)
    from loop_next_spec[OF this] Fresh Inr show ?thesis by (simp add: generate_folds_def)
  qed
next
  case (Suspended tlen trlen rest)
  with assms have "loop_next sq self tlen trlen rest = (r, self', fr')" by (simp add: gen_next_def)
  from loop_next_spec[OF this] Suspended show ?thesis by simp
next
  case Finished
  with assms show ?thesis by (auto simp: gen_next_def)
qed

lemma results_of_simps [simp]:
  "results_of k [] = []"
  "results_of k ((j, r) # rs) = (if j = k then r # results_of k rs else results_of k rs)"
  by (simp_all add: results_of_def)

lemma run_invariant:
  assumes "the_object w = fg"
    and "\<forall>k<length (generators w). \<forall>n.
           nth_step (gen_of_frame sq fg (generators w ! k)) n
             = nth_step (generate_folds sq fg) (c k + n)"
    and "\<forall>k\<ge>length (generators w). c k = 0"
  shows "the_object (snd (run sq w as)) = fg
       \<and> (\<forall>k. results_of k (fst (run sq w as))
              = map (nth_step (generate_folds sq fg))
                  [c k..<c k + length (results_of k (fst (run sq w as)))])"
  using assms
proof (induction as arbitrary: w c)
  case Nil
  then show ?case by simp
next
  case (Cons a as)
  show ?case
  proof (cases a)
    case Call
    let ?w = "w\<lparr>generators := generators w @ [Fresh]\<rparr>"
    have "the_object ?w = fg" using Cons.prems(1) by simp
    moreover have "\<forall>k<length (generators ?w). \<forall>n.
           nth_step (gen_of_frame sq fg (generators ?w ! k)) n
             = nth_step (generate_folds sq fg) (c k + n)"
      using Cons.prems(2,3) by (auto simp: nth_append less_Suc_eq)
    moreover have "\<forall>k\<ge>length (generators ?w). c k = 0"
      using Cons.prems(3) by simp
    ultimately show ?thesis using Cons.IH[of ?w c] Call by simp
  next
    case (Next k)
    show ?thesis
    proof (cases "k < length (generators w)")
      case False
      with Cons.IH[OF Cons.prems] Next show ?thesis by simp
    next
      case True
      obtain r self' fr' where g: "gen_next sq fg (generators w ! k) = (r, self', fr')"
        by (cases "gen_next sq fg (generators w ! k)")
      from gen_next_spec[OF g] have s: "self' = fg"
        and r: "r = nth_step (gen_of_frame sq fg (generators w ! k)) 0"
        and n: "\<forall>n. nth_step (gen_of_frame sq fg fr') n
                  = nth_step (gen_of_frame sq fg (generators w ! k)) (Suc n)"
        by blast+
      let ?w = "\<lparr>the_object = fg, generators = (generators w)[k := fr']\<rparr>"
      let ?c = "c(k := Suc (c k))"
      have 1: "the_object ?w = fg" by simp
      have 2: "\<forall>j<length (generators ?w). \<forall>n.
           nth_step (gen_of_frame sq fg (generators ?w ! j)) n
             = nth_step (generate_folds sq fg) (?c j + n)"
        using Cons.prems(2) True n by (auto simp: nth_list_update)
      have 3: "\<forall>j\<ge>length (generators ?w). ?c j = 0"
        using Cons.prems(3) True by auto
      from r Cons.prems(2) True have r': "r = nth_step (generate_folds sq fg) (c k)"
        by (metis add.right_neutral)
      obtain rs w' where run: "run sq ?w as = (rs, w')" by (cases "run sq ?w as")
      from Cons.IH[OF 1 2 3] run have w': "the_object w' = fg"
        and rs: "\<forall>j. results_of j rs
              = map (nth_step (generate_folds sq fg)) [?c j..<?c j + length (results_of j rs)]"
        by simp_all
      have whole: "run sq w (a # as) = ((k, r) # rs, w')"
        using Next True g s run Cons.prems(1) by simp
      have "results_of j ((k, r) # rs)
              = map (nth_step (generate_folds sq fg))
                  [c j..<c j + length (results_of j ((k, r) # rs))]" for j
      proof (cases "j = k")
        case False
        with rs[rule_format, of j] show ?thesis by simp
      next
        case jk: True
        from rs[rule_format, of k]
        have "results_of k rs = map (nth_step (generate_folds sq fg))
                [Suc (c k)..<Suc (c k) + length (results_of k rs)]" by simp
        then have "r # results_of k rs = map (nth_step (generate_folds sq fg))
                (c k # [Suc (c k)..<Suc (c k) + length (results_of k rs)])"
          using r' by simp
        also have "c k # [Suc (c k)..<Suc (c k) + length (results_of k rs)]
                     = [c k..<c k + Suc (length (results_of k rs))]"
          by (simp add: upt_rec)
        finally show ?thesis using jk by simp
      qed
      with w' whole show ?thesis by simp
    qed
  qed
qed

text \<open>
  Claim C3: however a client interleaves calls of the \<^verbatim>\<open>FoldGenerator\<close> object with
  \<^verbatim>\<open>next\<close> calls on the generators it has made, the object is left as it was, and
  the answers that any one generator gives are, in order, the first answers of the one
  sequence \<open>generate_folds\<close> describes. Two invocations therefore produce identical
  sequences, each from fold 0, and neither is moved by advancing the other.
\<close>

theorem fold_generator_restartable:
  "the_object (snd (run sq \<lparr>the_object = fg, generators = []\<rparr> as)) = fg
   \<and> (\<forall>k. results_of k (fst (run sq \<lparr>the_object = fg, generators = []\<rparr> as))
          = map (nth_step (generate_folds sq fg))
              [0..<length (results_of k (fst (run sq \<lparr>the_object = fg, generators = []\<rparr> as)))])"
  using run_invariant[of "\<lparr>the_object = fg, generators = []\<rparr>" fg sq "\<lambda>k. 0" as]
  by simp

theorem fold_generator_restartable_witness:
  "results_of 0 (fst (run no_windowing \<lparr>the_object = two_series, generators = []\<rparr> interleaved))
     = results_of 1 (fst (run no_windowing \<lparr>the_object = two_series, generators = []\<rparr> interleaved))
   \<and> length (results_of 0
         (fst (run no_windowing \<lparr>the_object = two_series, generators = []\<rparr> interleaved))) = 3
   \<and> nth_step (generate_folds no_windowing two_series) 2 = StopIteration"
proof -
  let ?rs = "fst (run no_windowing \<lparr>the_object = two_series, generators = []\<rparr> interleaved)"
  have l: "length (results_of 0 ?rs) = 3" "length (results_of 1 ?rs) = 3"
    "nth_step (generate_folds no_windowing two_series) 2 = StopIteration"
    by code_simp+
  from fold_generator_restartable[of no_windowing two_series interleaved]
  have "results_of 0 ?rs = map (nth_step (generate_folds no_windowing two_series))
                              [0..<length (results_of 0 ?rs)]"
    and "results_of 1 ?rs = map (nth_step (generate_folds no_windowing two_series))
                              [0..<length (results_of 1 ?rs)]"
    by blast+
  with l show ?thesis by simp
qed

subsection \<open>MetricsEvaluator: failing metrics are skipped\<close>

lemma evaluate_metrics_acc:
  assumes "evaluate_metrics cm ys yt verbose ms (res, out) = (res', out')"
  shows "(\<forall>m. map_of res' m =
            (if m \<in> set ms \<and> metric_value cm ys yt m \<noteq> None then metric_value cm ys yt m
             else map_of res m))
       \<and> (\<forall>m. Not_a_valid_metric m \<in> set out' \<longleftrightarrow>
            Not_a_valid_metric m \<in> set out \<or> (m \<in> set ms \<and> metric_value cm ys yt m = None))"
  using assms
proof (induction ms arbitrary: res out)
  case Nil
  then show ?case by simp
next
  case (Cons metric rest)
  show ?case
  proof (cases "metric_value cm ys yt metric")
    case None
    with Cons.prems have
      "evaluate_metrics cm ys yt verbose rest (res, out @ [Not_a_valid_metric metric]) = (res', out')"
      by (auto simp: metric_value_def split: option.splits sum.splits)
    from Cons.IH[OF this] None show ?thesis by auto
  next
    case (Some v)
    with Cons.prems have
      "evaluate_metrics cm ys yt verbose rest
         (AList.update metric v res, if verbose then out @ [Results_for metric v] else out) = (res', out')"
      by (auto simp: metric_value_def split: option.splits sum.splits)
    from Cons.IH[OF this] Some show ?thesis
      by (auto simp: update_conv')
  qed
qed

text \<open>
  Claim C7, as stated, fails: with a metric name configured twice the frame has a
  repeated column, the \<^verbatim>\<open>append\<close> after the loop raises, and the value that was
  computed is not recorded.
\<close>

theorem metrics_evaluator_repeated_name:
  "metric_value example_metrics example_array example_array ''mape'' = Some (Fin 1)
   \<and> metrics_evaluator_evaluate example_metrics written
         (metrics_evaluator_init [''mape'', ''mape''] None) example_array example_array False
       = (Some (InvalidIndexError ''Reindexing only valid with uniquely valued Index objects''),
          metrics_evaluator_init [''mape'', ''mape''] None, [])"
  by (simp add: metrics_evaluator_evaluate_def metrics_evaluator_init_def example_metrics_def
      metric_value_def df_append_def)

text \<open>
  Claim C7, amended: for a list of metric names without repetition,
  \<^verbatim>\<open>MetricsEvaluator.evaluate\<close> appends exactly one row; the row holds the value of
  every configured metric that resolves and returns, and nothing for any other name;
  every configured metric that does not resolve or that raises is reported as not
  valid; and the call raises only what writing the pickle raises, so never because of
  a metric.
\<close>

theorem metrics_evaluator_resilient:
  assumes "distinct (metrics ev)"
  shows "\<exists>row out.
     metrics_evaluator_evaluate cm save ev y_samples y_truth verbose
       = (if truthy (filename ev) then save (tearsheet ev @ [row]) (the (filename ev)) else None,
          ev\<lparr>tearsheet := tearsheet ev @ [row]\<rparr>, out)
   \<and> (\<forall>m. map_of row m =
          (if m \<in> set (metrics ev) then metric_value cm y_samples y_truth m else None))
   \<and> (\<forall>m. Not_a_valid_metric m \<in> set out \<longleftrightarrow>
          m \<in> set (metrics ev) \<and> metric_value cm y_samples y_truth m = None)"
proof -
  obtain row out where
    e: "evaluate_metrics cm y_samples y_truth verbose (metrics ev) ([], []) = (row, out)"
    by (cases "evaluate_metrics cm y_samples y_truth verbose (metrics ev) ([], [])")
  from evaluate_metrics_acc[OF e]
  have "\<forall>m. map_of row m =
          (if m \<in> set (metrics ev) then metric_value cm y_samples y_truth m else None)"
    and "\<forall>m. Not_a_valid_metric m \<in> set out \<longleftrightarrow>
          m \<in> set (metrics ev) \<and> metric_value cm y_samples y_truth m = None"
    by auto
  moreover have "metrics_evaluator_evaluate cm save ev y_samples y_truth verbose
       = (if truthy (filename ev) then save (tearsheet ev @ [row]) (the (filename ev)) else None,
          ev\<lparr>tearsheet := tearsheet ev @ [row]\<rparr>, out)"
    using assms by (simp add: metrics_evaluator_evaluate_def e Let_def df_append_def)
  ultimately show ?thesis by blast
qed

theorem metrics_evaluator_resilient_witness:
  "distinct [''mape'', ''not_a_real_metric'', ''broken'', ''rmse'']
   \<and> fst (metrics_evaluator_evaluate example_metrics written
          (metrics_evaluator_init [''mape'', ''not_a_real_metric'', ''broken'', ''rmse''] None)
          example_array example_array False) = None
   \<and> map (\<lambda>r. map (map_of r) [''mape'', ''not_a_real_metric'', ''broken'', ''rmse''])
        (tearsheet (fst (snd (metrics_evaluator_evaluate example_metrics written
          (metrics_evaluator_init [''mape'', ''not_a_real_metric'', ''broken'', ''rmse''] None)
          example_array example_array False))))
       = [[Some (Fin 1), None, None, Some (Fin 2)]]"
proof -
  let ?ev = "metrics_evaluator_init [''mape'', ''not_a_real_metric'', ''broken'', ''rmse''] None
               :: val metrics_evaluator"
  have d: "distinct (metrics ?ev)" by (simp add: metrics_evaluator_init_def)
  from metrics_evaluator_resilient[OF d, of example_metrics written example_array example_array False]
  obtain row out where
    a: "metrics_evaluator_evaluate example_metrics written ?ev example_array example_array False
          = (None, ?ev\<lparr>tearsheet := [row]\<rparr>, out)"
    and b: "\<forall>m. map_of row m =
          (if m \<in> set (metrics ?ev) then metric_value example_metrics example_array example_array m
           else None)"
    by (auto simp: metrics_evaluator_init_def truthy_def)
  from b have "map (map_of row) [''mape'', ''not_a_real_metric'', ''broken'', ''rmse'']
      = [Some (Fin 1), None, None, Some (Fin 2)]"
    by (simp add: metrics_evaluator_init_def metric_value_def example_metrics_def)
  with a show ?thesis by simp
qed

subsection \<open>CrossValidator: the forecaster is reset before every fit\<close>

lemma predict_and_score_fit_calls:
  "fit_calls (snd (predict_and_score c n v st X y)) = fit_calls st"
  by (simp add: predict_and_score_def split: sum.splits option.splits prod.splits)

lemma predict_and_score_no_scaler:
  assumes "scaler st = None"
  shows "\<exists>e. predict_and_score c n v st X y = (Some e, st)
           \<and> (\<forall>yp. predict c (forecaster st) X n = Inr yp \<longrightarrow>
                  e = AttributeError ''NoneType object has no attribute inverse_transform_y'')"
  using assms by (simp add: predict_and_score_def split: sum.splits)

lemma evaluate_fold_fit_calls:
  "fit_calls (snd (evaluate_fold c n v st fd)) = fit_calls st
   \<or> fit_calls (snd (evaluate_fold c n v st fd)) = fit_calls st @ [(forecaster st)\<lparr>is_fitted := False\<rparr>]"
  by (cases fd) (auto simp: evaluate_fold_def Let_def predict_and_score_fit_calls split: sum.splits prod.splits)

lemma evaluate_fold_returns:
  assumes "fst (evaluate_fold c n v st fd) = None"
  shows "fit_calls (snd (evaluate_fold c n v st fd)) = fit_calls st @ [(forecaster st)\<lparr>is_fitted := False\<rparr>]"
  using assms
  by (cases fd) (auto simp: evaluate_fold_def Let_def predict_and_score_fit_calls split: sum.splits prod.splits)

lemma evaluate_folds_fit_calls:
  "\<exists>new. fit_calls (snd (evaluate_folds c n v st g)) = fit_calls st @ new
     \<and> (\<forall>f\<in>set new. \<not> is_fitted f)
     \<and> length new \<le> length (yielded g)
     \<and> (fst (evaluate_folds c n v st g) = None \<longrightarrow> length new = length (yielded g))"
proof (induction g arbitrary: st)
  case Stop
  show ?case by simp
next
  case (Raise e)
  show ?case by simp
next
  case (Yield fd g)
  obtain r st' where r: "evaluate_fold c n v st fd = (r, st')" by (cases "evaluate_fold c n v st fd")
  show ?case
  proof (cases r)
    case None
    from evaluate_fold_returns[of c n v st fd] r None
    have a: "fit_calls st' = fit_calls st @ [(forecaster st)\<lparr>is_fitted := False\<rparr>]" by simp
    from Yield.IH[of st'] obtain new where
      n: "fit_calls (snd (evaluate_folds c n v st' g)) = fit_calls st' @ new"
      "\<forall>f\<in>set new. \<not> is_fitted f" "length new \<le> length (yielded g)"
      "fst (evaluate_folds c n v st' g) = None \<longrightarrow> length new = length (yielded g)"
      by (elim exE conjE)
    show ?thesis
      apply (rule exI[of _ "(forecaster st)\<lparr>is_fitted := False\<rparr> # new"])
      using r None a n by simp
  next
    case (Some e)
    from evaluate_fold_fit_calls[of c n v st fd] r
    consider "fit_calls st' = fit_calls st"
      | "fit_calls st' = fit_calls st @ [(forecaster st)\<lparr>is_fitted := False\<rparr>]" by auto
    then show ?thesis
    proof cases
      case 1
      show ?thesis by (rule exI[of _ "[]"]) (use r Some 1 in simp)
    next
      case 2
      show ?thesis
        by (rule exI[of _ "[(forecaster st)\<lparr>is_fitted := False\<rparr>]"]) (use r Some 2 in simp)
    qed
  qed
qed

lemma fit_calls_unfitted:
  "\<exists>new. fit_calls (snd (cross_validator_evaluate c st folds n_samples verbose)) = fit_calls st @ new
     \<and> (\<forall>f\<in>set new. \<not> is_fitted f)
     \<and> length new \<le> length (yielded folds)
     \<and> (returned (fst (cross_validator_evaluate c st folds n_samples verbose))
          \<longrightarrow> length new = length (yielded folds))"
proof -
  let ?st0 = "st\<lparr>evaluator := reset (evaluator st)\<rparr>"
  obtain r st' where r: "evaluate_folds c n_samples verbose ?st0 folds = (r, st')"
    by (cases "evaluate_folds c n_samples verbose ?st0 folds")
  from evaluate_folds_fit_calls[of c n_samples verbose ?st0 folds] r
  show ?thesis
    by (cases r) (auto simp: cross_validator_evaluate_def returned_def)
qed

lemma np_mean_ex: "np_mean [Fin 1, Fin 3] = Fin 2"
  by (simp add: np_mean_def)

lemma np_std_ex: "np_std [Fin 1, Fin 3] = Fin 1"
  by (simp add: np_std_def np_mean_ex) (simp add: np_mean_def)

lemma reduce_ex:
  "reduce_axis0 np_mean example_array = [[Fin 2]]" "reduce_axis0 np_std example_array = [[Fin 1]]"
  by (simp_all add: reduce_axis0_def example_array_def shape1_def shape2_def np_mean_ex np_std_ex)

lemma standardize_ex:
  "standardize (Some [[Fin 2]]) (Some [[Fin 1]]) example_array = Inr [[[Fin (-1)]], [[Fin 1]]]"
  by (simp add: standardize_def arr3_op_def arr2_op_def broadcast_def example_array_def)

lemma unstandardize_ex:
  "unstandardize (Some [[Fin 2]]) (Some [[Fin 1]]) [[[Fin (-1)]], [[Fin 1]]] = Inr example_array"
  by (simp add: unstandardize_def arr3_op_def arr2_op_def broadcast_def example_array_def)

lemma evaluate_fold_ex:
  assumes "scaler st = Some s" "vs_targets s = None"
    "metrics (evaluator st) = []" "filename (evaluator st) = None"
  shows "\<exists>st' s'. evaluate_fold example_collaborators 1 False st example_fold = (None, st')
     \<and> scaler st' = Some s' \<and> vs_targets s' = None
     \<and> metrics (evaluator st') = [] \<and> filename (evaluator st') = None"
  using assms
  by (simp add: evaluate_fold_def example_fold_def scale_fold_def fit_transform_x_def fit_transform_y_def
      fit_x_def fit_y_def fit_x_stats_def transform_x_def transform_y_def reduce_ex standardize_ex Let_def
      example_collaborators_def predict_and_score_def inverse_transform_y_def unstandardize_ex
      metrics_evaluator_evaluate_def df_append_def truthy_def)

lemma run_ex:
  "returned (fst (cross_validator_evaluate example_collaborators
       (example_state (Some (vector_scaler_init None)))
       (Yield example_fold (Yield example_fold Stop)) 1 False))"
proof -
  let ?st0 = "(example_state (Some (vector_scaler_init None)))
                \<lparr>evaluator := reset (evaluator (example_state (Some (vector_scaler_init None))))\<rparr>"
  have "scaler ?st0 = Some (vector_scaler_init None)" "vs_targets (vector_scaler_init None) = None"
    "metrics (evaluator ?st0) = []" "filename (evaluator ?st0) = None"
    by (simp_all add: example_state_def vector_scaler_init_def reset_def metrics_evaluator_init_def)
  from evaluate_fold_ex[OF this] obtain st1 s1 where
    1: "evaluate_fold example_collaborators 1 False ?st0 example_fold = (None, st1)"
    and "scaler st1 = Some s1" "vs_targets s1 = None"
     "metrics (evaluator st1) = []" "filename (evaluator st1) = None"
    by (elim exE conjE)
  from evaluate_fold_ex[OF this(2-5)] obtain st2 where
    2: "evaluate_fold example_collaborators 1 False st1 example_fold = (None, st2)"
    by (elim exE conjE)
  show ?thesis
    by (simp add: cross_validator_evaluate_def 1 2 returned_def)
qed

lemma predict_and_score_forecaster:
  "forecaster (snd (predict_and_score c n v st X y)) = forecaster st"
  by (simp add: predict_and_score_def split: sum.splits option.splits prod.splits)

lemma evaluate_fold_observed:
  "observed (snd (evaluate_fold (spy c) n v st fd)) = observed st
     \<and> fst (evaluate_fold (spy c) n v st fd) \<noteq> None
   \<or> observed (snd (evaluate_fold (spy c) n v st fd)) = observed st @ [False]"
  by (cases fd)
     (auto simp: evaluate_fold_def Let_def observed_def spy_def predict_and_score_forecaster
           split: sum.splits prod.splits)

lemma evaluate_folds_observed:
  "\<exists>new. observed (snd (evaluate_folds (spy c) n v st g)) = observed st @ new
     \<and> set new \<subseteq> {False}
     \<and> length new \<le> length (yielded g)
     \<and> (fst (evaluate_folds (spy c) n v st g) = None \<longrightarrow> length new = length (yielded g))"
proof (induction g arbitrary: st)
  case Stop
  show ?case by simp
next
  case (Raise e)
  show ?case by simp
next
  case (Yield fd g)
  obtain r st' where r: "evaluate_fold (spy c) n v st fd = (r, st')"
    by (cases "evaluate_fold (spy c) n v st fd")
  from evaluate_fold_observed[of c n v st fd] r
  consider (stay) "observed st' = observed st" "r \<noteq> None"
    | (step) "observed st' = observed st @ [False]" by auto
  then show ?case
  proof cases
    case stay
    show ?thesis by (rule exI[of _ "[]"]) (use r stay in auto)
  next
    case step
    from Yield.IH[of st'] obtain new where
      n: "observed (snd (evaluate_folds (spy c) n v st' g)) = observed st' @ new"
      "set new \<subseteq> {False}" "length new \<le> length (yielded g)"
      "fst (evaluate_folds (spy c) n v st' g) = None \<longrightarrow> length new = length (yielded g)"
      by (elim exE conjE)
    show ?thesis
    proof (cases r)
      case None
      show ?thesis
        by (rule exI[of _ "False # new"]) (use r None step n in simp)
    next
      case (Some e)
      show ?thesis
        by (rule exI[of _ "[False]"]) (use r Some step in simp)
    qed
  qed
qed

lemma erase_simps [simp]:
  "forecaster (erase_state st) = erase (forecaster st)"
  "scaler (erase_state st) = scaler st"
  "evaluator (erase_state st) = evaluator st"
  "printed (erase_state st) = printed st"
  "fit_calls (erase_state st) = map erase (fit_calls st)"
  "erase (f\<lparr>is_fitted := b\<rparr>) = (erase f)\<lparr>is_fitted := b\<rparr>"
  "erase_state (st\<lparr>forecaster := f\<rparr>) = (erase_state st)\<lparr>forecaster := erase f\<rparr>"
  "erase_state (st\<lparr>scaler := sc\<rparr>) = (erase_state st)\<lparr>scaler := sc\<rparr>"
  "erase_state (st\<lparr>evaluator := ev\<rparr>) = (erase_state st)\<lparr>evaluator := ev\<rparr>"
  "erase_state (st\<lparr>printed := p\<rparr>) = (erase_state st)\<lparr>printed := p\<rparr>"
  "erase_state (st\<lparr>fit_calls := fc\<rparr>) = (erase_state st)\<lparr>fit_calls := map erase fc\<rparr>"
  by (simp_all add: erase_state_def erase_def)

lemma predict_and_score_erase:
  "predict_and_score c n v (erase_state st) X y
     = (fst (predict_and_score (spy c) n v st X y),
        erase_state (snd (predict_and_score (spy c) n v st X y)))"
  by (simp add: predict_and_score_def spy_def split: sum.splits option.splits prod.splits)

lemma fit_spy:
  "fit (spy c) f X y =
     (case fit c (erase f) X y of
        Inl e \<Rightarrow> Inl e
      | Inr f' \<Rightarrow>
          Inr \<lparr>is_fitted = is_fitted f',
               internals = (internals f', snd (internals f) @ [is_fitted f])\<rparr>)"
  by (simp add: spy_def)

lemma erase_spied:
  "erase \<lparr>is_fitted = is_fitted f', internals = (internals f', l)\<rparr> = f'"
  by (simp add: erase_def)

lemma evaluate_fold_erase:
  "evaluate_fold c n v (erase_state st) fd
     = (fst (evaluate_fold (spy c) n v st fd), erase_state (snd (evaluate_fold (spy c) n v st fd)))"
proof -
  obtain X_train X_test y_train y_test where fd: "fd = (X_train, X_test, y_train, y_test)"
    by (cases fd)
  obtain r sc where sf: "scale_fold (scaler st) X_train X_test y_train = (r, sc)"
    by (cases "scale_fold (scaler st) X_train X_test y_train")
  show ?thesis
  proof (cases r)
    case (Inl e)
    with sf show ?thesis by (simp add: fd evaluate_fold_def Let_def)
  next
    case (Inr t)
    obtain X_train' X_test' y_train' where t: "t = (X_train', X_test', y_train')" by (cases t)
    let ?f0 = "(forecaster st)\<lparr>is_fitted := False\<rparr>"
    show ?thesis
    proof (cases "fit c (erase ?f0) X_train' y_train'")
      case (Inl e)
      with sf Inr t show ?thesis
        by (simp add: fd evaluate_fold_def Let_def fit_spy)
    next
      case f: (Inr f')
      let ?f1 = "\<lparr>is_fitted = is_fitted f',
                  internals = (internals f', snd (internals ?f0) @ [is_fitted ?f0])\<rparr>"
      let ?st2 = "st\<lparr>forecaster := ?f0, scaler := sc, fit_calls := fit_calls st @ [?f0],
                     forecaster := ?f1\<rparr>"
      have a: "evaluate_fold (spy c) n v st fd = predict_and_score (spy c) n v ?st2 X_test' y_test"
        using sf Inr t f by (simp add: fd evaluate_fold_def Let_def fit_spy)
      have b: "evaluate_fold c n v (erase_state st) fd
                 = predict_and_score c n v (erase_state ?st2) X_test' y_test"
        using sf Inr t f by (simp add: fd evaluate_fold_def Let_def erase_spied)
      show ?thesis unfolding a b by (rule predict_and_score_erase)
    qed
  qed
qed

lemma evaluate_folds_erase:
  "evaluate_folds c n v (erase_state st) g
     = (fst (evaluate_folds (spy c) n v st g), erase_state (snd (evaluate_folds (spy c) n v st g)))"
proof (induction g arbitrary: st)
  case (Yield fd g)
  obtain r st' where r: "evaluate_fold (spy c) n v st fd = (r, st')"
    by (cases "evaluate_fold (spy c) n v st fd")
  with evaluate_fold_erase[of c n v st fd]
  have "evaluate_fold c n v (erase_state st) fd = (r, erase_state st')" by simp
  with r Yield.IH[of st'] show ?case by (cases r) simp_all
qed simp_all

lemma cross_validator_evaluate_erase:
  "cross_validator_evaluate c (erase_state st) folds n v
     = (fst (cross_validator_evaluate (spy c) st folds n v),
        erase_state (snd (cross_validator_evaluate (spy c) st folds n v)))"
proof -
  let ?st0 = "st\<lparr>evaluator := reset (evaluator st)\<rparr>"
  obtain r st' where r: "evaluate_folds (spy c) n v ?st0 folds = (r, st')"
    by (cases "evaluate_folds (spy c) n v ?st0 folds")
  with evaluate_folds_erase[of c n v ?st0 folds]
  have "evaluate_folds c n v ((erase_state st)\<lparr>evaluator := reset (evaluator (erase_state st))\<rparr>) folds
          = (r, erase_state st')" by simp
  with r show ?thesis by (cases r) (simp_all add: cross_validator_evaluate_def)
qed

text \<open>
  Claim C8: in every run of \<^verbatim>\<open>CrossValidator.evaluate\<close>, whatever the collaborators,
  every call of \<^verbatim>\<open>forecaster.fit\<close> that returns was made on a forecaster whose flag
  is \<^verbatim>\<open>False\<close>: the flags that the spying \<^verbatim>\<open>fit\<close> notes are all \<^verbatim>\<open>False\<close>, there
  is at most one per fold and exactly one per fold when the run returns, and the run
  with the spy is, diary aside, the run without it.
\<close>

theorem forecaster_unfitted_before_each_fit:
  "\<exists>new. observed (snd (cross_validator_evaluate (spy c) st folds n_samples verbose))
            = observed st @ new
     \<and> set new \<subseteq> {False}
     \<and> length new \<le> length (yielded folds)
     \<and> (returned (fst (cross_validator_evaluate (spy c) st folds n_samples verbose))
          \<longrightarrow> length new = length (yielded folds))
     \<and> cross_validator_evaluate c (erase_state st) folds n_samples verbose
          = (fst (cross_validator_evaluate (spy c) st folds n_samples verbose),
             erase_state (snd (cross_validator_evaluate (spy c) st folds n_samples verbose)))"
proof -
  let ?st0 = "st\<lparr>evaluator := reset (evaluator st)\<rparr>"
  obtain r st' where r: "evaluate_folds (spy c) n_samples verbose ?st0 folds = (r, st')"
    by (cases "evaluate_folds (spy c) n_samples verbose ?st0 folds")
  have "observed ?st0 = observed st" by (simp add: observed_def)
  with evaluate_folds_observed[of c n_samples verbose ?st0 folds] r
  have "\<exists>new. observed (snd (cross_validator_evaluate (spy c) st folds n_samples verbose))
            = observed st @ new
     \<and> set new \<subseteq> {False}
     \<and> length new \<le> length (yielded folds)
     \<and> (returned (fst (cross_validator_evaluate (spy c) st folds n_samples verbose))
          \<longrightarrow> length new = length (yielded folds))"
    by (cases r) (auto simp: cross_validator_evaluate_def returned_def)
  with cross_validator_evaluate_erase[of c st folds n_samples verbose] show ?thesis by blast
qed

theorem forecaster_unfitted_before_each_fit_witness:
  "observed (snd (cross_validator_evaluate (spy example_collaborators)
       (example_spy_state (Some (vector_scaler_init None)))
       (Yield example_fold (Yield example_fold Stop)) 1 False)) = [False, False]"
proof -
  let ?r = "cross_validator_evaluate (spy example_collaborators)
       (example_spy_state (Some (vector_scaler_init None)))
       (Yield example_fold (Yield example_fold Stop)) 1 False"
  have e: "erase_state (example_spy_state (Some (vector_scaler_init None)))
             = example_state (Some (vector_scaler_init None))"
    by (simp add: erase_state_def erase_def example_spy_state_def example_state_def)
  from forecaster_unfitted_before_each_fit[of example_collaborators
        "example_spy_state (Some (vector_scaler_init None))"
        "Yield example_fold (Yield example_fold Stop)" 1 False]
  obtain new where a: "observed (snd ?r) = new" and b: "set new \<subseteq> {False}"
    and c: "returned (fst ?r) \<longrightarrow> length new = 2"
    and d: "cross_validator_evaluate example_collaborators
              (erase_state (example_spy_state (Some (vector_scaler_init None))))
              (Yield example_fold (Yield example_fold Stop)) 1 False = (fst ?r, erase_state (snd ?r))"
    by (auto simp: example_spy_state_def observed_def)
  from d run_ex have "returned (fst ?r)" unfolding e by simp
  with c have "length new = 2" by blast
  then obtain f1 f2 where "new = [f1, f2]"
    by (auto simp: length_Suc_conv numeral_2_eq_2)
  with a b show ?thesis by simp
qed

subsection \<open>CrossValidator: a run without a scaler\<close>

lemma evaluate_fold_no_scaler:
  assumes "scaler st = None"
  shows "\<exists>e st'. evaluate_fold c n v st (X_train, X_test, y_train, y_test) = (Some e, st')
           \<and> evaluator st' = evaluator st
           \<and> fit_calls st' = fit_calls st @ [(forecaster st)\<lparr>is_fitted := False\<rparr>]
           \<and> (\<forall>f' yp. fit c ((forecaster st)\<lparr>is_fitted := False\<rparr>) X_train y_train = Inr f'
                  \<and> predict c f' X_test n = Inr yp \<longrightarrow>
                  e = AttributeError ''NoneType object has no attribute inverse_transform_y'')"
proof -
  let ?f0 = "(forecaster st)\<lparr>is_fitted := False\<rparr>"
  let ?st2 = "st\<lparr>forecaster := ?f0, scaler := None, fit_calls := fit_calls st @ [?f0]\<rparr>"
  show ?thesis
  proof (cases "fit c ?f0 X_train y_train")
    case (Inl e)
    then show ?thesis using assms by (simp add: evaluate_fold_def scale_fold_def Let_def)
  next
    case (Inr f')
    have "scaler (?st2\<lparr>forecaster := f'\<rparr>) = None" by simp
    from predict_and_score_no_scaler[OF this, of c n v X_test y_test]
    obtain e where "predict_and_score c n v (?st2\<lparr>forecaster := f'\<rparr>) X_test y_test = (Some e, ?st2\<lparr>forecaster := f'\<rparr>)"
      and "\<forall>yp. predict c f' X_test n = Inr yp \<longrightarrow>
                  e = AttributeError ''NoneType object has no attribute inverse_transform_y''"
      by auto
    then show ?thesis using assms Inr by (simp add: evaluate_fold_def scale_fold_def Let_def)
  qed
qed

text \<open>
  Claim C10: with \<^verbatim>\<open>scaler=None\<close> and a fold generator that yields a fold,
  \<^verbatim>\<open>evaluate\<close> raises in the first fold: the forecaster is fitted once, no row reaches
  the tearsheet, and when \<^verbatim>\<open>fit\<close> and \<^verbatim>\<open>predict\<close> return, the exception is the
  \<^verbatim>\<open>AttributeError\<close> of calling \<^verbatim>\<open>inverse_transform_y\<close> on \<^verbatim>\<open>None\<close>.
\<close>

theorem evaluate_without_scaler_fails:
  assumes "scaler st = None"
  shows "\<exists>e st'. cross_validator_evaluate c st (Yield (X_train, X_test, y_train, y_test) g) n_samples verbose
                   = (Inl e, st')
           \<and> tearsheet (evaluator st') = []
           \<and> fit_calls st' = fit_calls st @ [(forecaster st)\<lparr>is_fitted := False\<rparr>]
           \<and> (\<forall>f' yp. fit c ((forecaster st)\<lparr>is_fitted := False\<rparr>) X_train y_train = Inr f'
                  \<and> predict c f' X_test n_samples = Inr yp \<longrightarrow>
                  e = AttributeError ''NoneType object has no attribute inverse_transform_y'')"
proof -
  let ?st0 = "st\<lparr>evaluator := reset (evaluator st)\<rparr>"
  have "scaler ?st0 = None" using assms by simp
  from evaluate_fold_no_scaler[OF this, of c n_samples verbose X_train X_test y_train y_test]
  show ?thesis
    by (auto simp: cross_validator_evaluate_def reset_def)
qed

theorem evaluate_without_scaler_fails_witness:
  "scaler (example_state None) = None
   \<and> fst (cross_validator_evaluate example_collaborators (example_state None)
            (Yield example_fold (Yield example_fold Stop)) 1 False)
       = Inl (AttributeError ''NoneType object has no attribute inverse_transform_y'')"
proof -
  have h: "scaler (example_state None) = None" by (simp add: example_state_def)
  from evaluate_without_scaler_fails[OF h, of example_collaborators example_array example_array
         example_array example_array "Yield example_fold Stop" 1 False]
  show ?thesis using h
    by (auto simp: example_fold_def example_collaborators_def)
qed

subsection \<open>Optimizer: the objective is never built\<close>

lemma unpack2_model: "unpack2 ''model'' = Inl (ValueError ''too many values to unpack (expected 2)'')"
  by (simp add: unpack2_def)

lemma get_objective_raises:
  "get_objective sp f trial space = (Some (ValueError ''too many values to unpack (expected 2)''), f)"
  by (simp add: get_objective_def get_args_def unpack2_model)

text \<open>
  Claim C9 does not hold of the code. For a trial that sets \<^verbatim>\<open>filters\<close> to 32,
  \<^verbatim>\<open>get_objective\<close> raises \<^verbatim>\<open>ValueError\<close> while unpacking the first key of the
  dictionary that replaced the trial, and no attribute of the model, the optimizer or
  the forecaster is assigned.
\<close>

theorem get_objective_filters:
  "get_objective
     \<lparr>model_args = [''self'', ''filters'', ''num_layers''],
      forecaster_args = [''self'', ''epochs'', ''batch_size'', ''lr''],
      optimizer_args = [''self'', ''lr'']\<rparr>
     \<lparr>forecaster_attrs = [(''epochs'', IntV 10)], model_attrs = [(''filters'', IntV 64)],
      optimizer_attrs = [(''lr'', RatV (1 / 10))]\<rparr>
     [(''filters'', IntV 32)] ()
   = (Some (ValueError ''too many values to unpack (expected 2)''),
      \<lparr>forecaster_attrs = [(''epochs'', IntV 10)], model_attrs = [(''filters'', IntV 64)],
       optimizer_attrs = [(''lr'', RatV (1 / 10))]\<rparr>)"
  by (simp add: get_objective_def get_args_def unpack2_model)

subsection \<open>VectorScaler: arithmetic on arrays of one shape\<close>

lemma collect_Inr:
  "list_all2 (\<lambda>r x. r = Inr x) rs xs \<Longrightarrow> collect rs = Inr xs"
  by (induction rule: list_all2_induct) auto

lemma collect_map_Inr:
  "(\<And>x. x \<in> set xs \<Longrightarrow> g x = Inr (h x)) \<Longrightarrow> collect (map g xs) = Inr (map h xs)"
  by (induction xs) auto

lemma collect_Inl:
  "collect rs = Inl e \<Longrightarrow> Inl e \<in> set rs"
  by (induction rs) (auto split: sum.splits)

lemma collect_map2_Inr:
  assumes "list_all2 (\<lambda>x y. g x y = Inr (h x y)) xs ys"
  shows "collect (map2 g xs ys) = Inr (map2 h xs ys)"
  using assms by (induction rule: list_all2_induct) auto

lemma broadcast_equal_length:
  "length xs = length ys \<Longrightarrow> broadcast g xs ys = collect (map2 g xs ys)"
  by (simp add: broadcast_def)

lemma broadcast_row:
  assumes "length r = length m"
  shows "broadcast (\<lambda>a b. Inr (f a b)) r m = Inr (map2 f r m)"
proof -
  have "list_all2 (\<lambda>x y. (Inr (f x y) :: error + 'c) = Inr (f x y)) r m"
    using assms by (simp add: list_all2_conv_all_nth)
  from collect_map2_Inr[OF this] show ?thesis
    using assms by (simp add: broadcast_equal_length)
qed

lemma arr2_op_same_shape:
  assumes "same_shape2 S M"
  shows "arr2_op f S M = Inr (map2 (map2 f) S M)"
proof -
  from assms have len: "length S = length M"
    by (simp add: same_shape2_def list_all2_lengthD)
  have "list_all2 (\<lambda>r m. broadcast (\<lambda>a b. Inr (f a b)) r m = Inr (map2 f r m)) S M"
    using assms unfolding same_shape2_def
    by (rule list_all2_mono) (simp add: broadcast_row)
  from collect_map2_Inr[OF this] show ?thesis using len
    by (simp add: arr2_op_def broadcast_equal_length)
qed

lemma arr3_op_fitted_shape:
  assumes "fitted_shape M X"
  shows "arr3_op f X M = Inr (map (\<lambda>S. map2 (map2 f) S M) X)"
  unfolding arr3_op_def
  using assms by (intro collect_map_Inr) (simp add: fitted_shape_def list_all_iff arr2_op_same_shape)

lemma same_shape2_map2:
  assumes "same_shape2 S M"
  shows "same_shape2 (map2 (map2 f) S M) M"
  using assms unfolding same_shape2_def
  by (induction rule: list_all2_induct) auto

lemma same_shape2_sym: "same_shape2 A B \<Longrightarrow> same_shape2 B A"
  unfolding same_shape2_def by (simp add: list_all2_conv_all_nth)

lemma same_shape2_trans: "same_shape2 A B \<Longrightarrow> same_shape2 B C \<Longrightarrow> same_shape2 A C"
  unfolding same_shape2_def by (simp add: list_all2_conv_all_nth)

lemma same_shape2_refl: "same_shape2 A A"
  unfolding same_shape2_def by (simp add: list_all2_conv_all_nth)

lemma fitted_shape_map2:
  assumes "fitted_shape M X"
  shows "fitted_shape M (map (\<lambda>S. map2 (map2 f) S M) X)"
  using assms by (simp add: fitted_shape_def list_all_iff same_shape2_map2)

lemma fitted_shape_cong:
  "same_shape2 M D \<Longrightarrow> fitted_shape M X \<Longrightarrow> fitted_shape D X"
  by (auto simp: fitted_shape_def list_all_iff intro: same_shape2_trans)




lemma reduce_axis0_same_shape: "same_shape2 (reduce_axis0 f X) (reduce_axis0 g X)"
  by (simp add: same_shape2_def reduce_axis0_def list_all2_conv_all_nth)

lemma np_full_same_shape:
  "np_full a p k = Inr A \<Longrightarrow> np_full b p k = Inr B \<Longrightarrow> same_shape2 A B"
  by (auto simp: np_full_def same_shape2_def list_all2_conv_all_nth split: if_splits)

lemma concatenate1_same_shape:
  assumes "concatenate1 a z = Inr a'" "concatenate1 b w = Inr b'"
    "same_shape2 a b" "same_shape2 z w"
  shows "same_shape2 a' b'"
  using assms
  by (auto simp: concatenate1_def same_shape2_def list_all2_conv_all_nth split: if_splits)

lemma fit_x_stats_same_shape:
  assumes "fit_x_stats targets X = Inr (m, d)"
  shows "same_shape2 m d"
proof (cases targets)
  case None
  with assms show ?thesis by (auto simp: fit_x_stats_def reduce_axis0_same_shape)
next
  case (Some ts)
  with assms obtain Xt zeros ones where
    "np_full (Fin 0) (int (shape1 X)) (int (shape2 X) - int (length ts)) = Inr zeros"
    "np_full (Fin 1) (int (shape1 X)) (int (shape2 X) - int (length ts)) = Inr ones"
    "concatenate1 (reduce_axis0 np_mean Xt) zeros = Inr m"
    "concatenate1 (reduce_axis0 np_std Xt) ones = Inr d"
    by (auto simp: fit_x_stats_def Let_def split: sum.splits)
  then show ?thesis
    using concatenate1_same_shape np_full_same_shape reduce_axis0_same_shape by blast
qed

subsection \<open>VectorScaler: what a history of calls leaves behind\<close>

lemma fit_x_Inr:
  assumes "fit_x s X = Inr s'"
  shows "x_is_fitted s'" "x_stats_ok s'"
    "y_is_fitted s' = y_is_fitted s" "y_mean s' = y_mean s" "y_std s' = y_std s"
  using assms fit_x_stats_same_shape[of "vs_targets s" X]
  by (auto simp: fit_x_def x_stats_ok_def split: sum.splits)

lemma fit_y_Inr:
  assumes "fit_y s y = Inr s'"
  shows "y_is_fitted s'" "y_stats_ok s'"
    "x_is_fitted s' = x_is_fitted s" "x_mean s' = x_mean s" "x_std s' = x_std s"
  using assms reduce_axis0_same_shape[of np_mean y np_std]
  by (auto simp: fit_y_def y_stats_ok_def)

lemma after_call_x:
  "x_is_fitted (after_call s c) \<longleftrightarrow> x_is_fitted s \<or> runs_fit_x s c"
  "(x_is_fitted s \<longrightarrow> x_stats_ok s) \<Longrightarrow> x_is_fitted (after_call s c) \<longrightarrow> x_stats_ok (after_call s c)"
proof -
  have fy: "x_is_fitted (case fit_y s X of Inl e \<Rightarrow> s | Inr s' \<Rightarrow> s') = x_is_fitted s"
    "x_stats_ok (case fit_y s X of Inl e \<Rightarrow> s | Inr s' \<Rightarrow> s') = x_stats_ok s" for X
    by (cases "fit_y s X"; simp add: fit_y_Inr x_stats_ok_def)+
  have fty: "snd (fit_transform_y s X) = (case fit_y s X of Inl e \<Rightarrow> s | Inr s' \<Rightarrow> s')" for X
    by (simp add: fit_transform_y_def split: sum.splits)
  have fx: "x_is_fitted (case fit_x s X of Inl e \<Rightarrow> s | Inr s' \<Rightarrow> s')
              \<longleftrightarrow> x_is_fitted s \<or> returned (fit_x s X)"
    "(x_is_fitted s \<longrightarrow> x_stats_ok s) \<Longrightarrow>
       x_is_fitted (case fit_x s X of Inl e \<Rightarrow> s | Inr s' \<Rightarrow> s')
         \<longrightarrow> x_stats_ok (case fit_x s X of Inl e \<Rightarrow> s | Inr s' \<Rightarrow> s')" for X
    by (cases "fit_x s X"; simp add: fit_x_Inr returned_def)+
  have ftx: "snd (fit_transform_x s X) = (case fit_x s X of Inl e \<Rightarrow> s | Inr s' \<Rightarrow> s')" for X
    by (simp add: fit_transform_x_def split: sum.splits)
  show "x_is_fitted (after_call s c) \<longleftrightarrow> x_is_fitted s \<or> runs_fit_x s c"
    by (cases c) (simp_all add: fx ftx fy fty)
  show "x_is_fitted (after_call s c) \<longrightarrow> x_stats_ok (after_call s c)"
    if "x_is_fitted s \<longrightarrow> x_stats_ok s"
    using that by (cases c) (simp_all add: fx ftx fy fty)
qed

lemma after_call_y:
  "y_is_fitted (after_call s c) \<longleftrightarrow> y_is_fitted s \<or> runs_fit_y s c"
  "(y_is_fitted s \<longrightarrow> y_stats_ok s) \<Longrightarrow> y_is_fitted (after_call s c) \<longrightarrow> y_stats_ok (after_call s c)"
proof -
  have fx: "y_is_fitted (case fit_x s X of Inl e \<Rightarrow> s | Inr s' \<Rightarrow> s') = y_is_fitted s"
    "y_stats_ok (case fit_x s X of Inl e \<Rightarrow> s | Inr s' \<Rightarrow> s') = y_stats_ok s" for X
    by (cases "fit_x s X"; simp add: fit_x_Inr y_stats_ok_def)+
  have ftx: "snd (fit_transform_x s X) = (case fit_x s X of Inl e \<Rightarrow> s | Inr s' \<Rightarrow> s')" for X
    by (simp add: fit_transform_x_def split: sum.splits)
  have fy: "y_is_fitted (case fit_y s X of Inl e \<Rightarrow> s | Inr s' \<Rightarrow> s')"
    "y_stats_ok (case fit_y s X of Inl e \<Rightarrow> s | Inr s' \<Rightarrow> s')" "returned (fit_y s X)" for X
    by (cases "fit_y s X"; simp add: fit_y_Inr returned_def; simp add: fit_y_def)+
  have fty: "snd (fit_transform_y s X) = (case fit_y s X of Inl e \<Rightarrow> s | Inr s' \<Rightarrow> s')" for X
    by (simp add: fit_transform_y_def split: sum.splits)
  show "y_is_fitted (after_call s c) \<longleftrightarrow> y_is_fitted s \<or> runs_fit_y s c"
    by (cases c) (simp_all add: fx ftx fy fty)
  show "y_is_fitted (after_call s c) \<longrightarrow> y_stats_ok (after_call s c)"
    if "y_is_fitted s \<longrightarrow> y_stats_ok s"
    using that by (cases c) (simp_all add: fx ftx fy fty)
qed

lemma after_calls_x:
  assumes "x_is_fitted s \<longrightarrow> x_stats_ok s"
  shows "(x_is_fitted (after_calls s cs) \<longleftrightarrow> x_is_fitted s \<or> fit_x_returned s cs)
       \<and> (x_is_fitted (after_calls s cs) \<longrightarrow> x_stats_ok (after_calls s cs))"
  using assms
proof (induction cs arbitrary: s)
  case Nil
  then show ?case by simp
next
  case (Cons c cs)
  from Cons.IH[OF after_call_x(2)[OF Cons.prems]] after_call_x(1)[of s c]
  show ?case by auto
qed

lemma after_calls_y:
  assumes "y_is_fitted s \<longrightarrow> y_stats_ok s"
  shows "(y_is_fitted (after_calls s cs) \<longleftrightarrow> y_is_fitted s \<or> fit_y_returned s cs)
       \<and> (y_is_fitted (after_calls s cs) \<longrightarrow> y_stats_ok (after_calls s cs))"
  using assms
proof (induction cs arbitrary: s)
  case Nil
  then show ?case by simp
next
  case (Cons c cs)
  from Cons.IH[OF after_call_y(2)[OF Cons.prems]] after_call_y(1)[of s c]
  show ?case by auto
qed

lemma scaler_history:
  fixes targets cs
  defines "s0 \<equiv> vector_scaler_init targets"
  defines "s \<equiv> after_calls s0 cs"
  shows "x_is_fitted s \<longleftrightarrow> fit_x_returned s0 cs" "x_is_fitted s \<longrightarrow> x_stats_ok s"
    "y_is_fitted s \<longleftrightarrow> fit_y_returned s0 cs" "y_is_fitted s \<longrightarrow> y_stats_ok s"
proof -
  have "x_is_fitted s0 \<longrightarrow> x_stats_ok s0" "y_is_fitted s0 \<longrightarrow> y_stats_ok s0"
    "\<not> x_is_fitted s0" "\<not> y_is_fitted s0"
    by (simp_all add: s0_def vector_scaler_init_def)
  with after_calls_x[of s0 cs] after_calls_y[of s0 cs]
  show "x_is_fitted s \<longleftrightarrow> fit_x_returned s0 cs" "x_is_fitted s \<longrightarrow> x_stats_ok s"
    "y_is_fitted s \<longleftrightarrow> fit_y_returned s0 cs" "y_is_fitted s \<longrightarrow> y_stats_ok s"
    unfolding s_def by blast+
qed

lemma broadcast_error:
  assumes "broadcast g xs ys = Inl e"
  shows "e = ValueError ''operands could not be broadcast together'' \<or> (\<exists>x y. g x y = Inl e)"
  using assms
  by (auto simp: broadcast_def split: if_splits dest!: collect_Inl) (auto simp: in_set_zip)

lemma arr3_op_error:
  assumes "arr3_op f X M = Inl e"
  shows "e = ValueError ''operands could not be broadcast together''"
proof -
  from assms obtain S where "arr2_op f S M = Inl e"
    by (auto simp: arr3_op_def dest!: collect_Inl)
  then have "e = ValueError ''operands could not be broadcast together''
      \<or> (\<exists>x y. broadcast (\<lambda>a b. Inr (f a b)) x y = Inl e)"
    unfolding arr2_op_def by (rule broadcast_error)
  then show ?thesis using broadcast_error[of "\<lambda>a b. Inr (f a b)" _ _ e] by auto
qed

lemma unstandardize_error:
  assumes "unstandardize (Some m) (Some d) X = Inl e"
  shows "e = ValueError ''operands could not be broadcast together''"
  using assms by (auto simp: unstandardize_def split: sum.splits dest: arr3_op_error)

lemma unstandardize_fitted_shape:
  assumes "fitted_shape m X" "same_shape2 m d"
  shows "unstandardize (Some m) (Some d) X
           = Inr (map (\<lambda>S. map2 (map2 v_add) (map2 (map2 v_mul) S d) m) X)"
proof -
  let ?mul = "map (\<lambda>S. map2 (map2 v_mul) S d) X"
  have shd: "fitted_shape d X" by (rule fitted_shape_cong[OF assms(2,1)])
  have 1: "arr3_op v_mul X d = Inr ?mul" by (rule arr3_op_fitted_shape[OF shd])
  have "fitted_shape m ?mul"
    by (rule fitted_shape_cong[OF same_shape2_sym[OF assms(2)] fitted_shape_map2[OF shd]])
  from arr3_op_fitted_shape[OF this, of v_add]
  have 2: "arr3_op v_add ?mul m = Inr (map (\<lambda>S. map2 (map2 v_add) (map2 (map2 v_mul) S d) m) X)"
    by (simp add: comp_def)
  show ?thesis by (simp only: unstandardize_def 1 2 option.case sum.case)
qed

lemma np_std_constant: "np_mean [Fin 5, Fin 5] = Fin 5" "np_std [Fin 5, Fin 5] = Fin 0"
  by (simp_all add: np_std_def np_mean_def)

lemma fit_x_example:
  "fit_x (vector_scaler_init None) example_array
     = Inr ((vector_scaler_init None)\<lparr>x_mean := Some [[Fin 2]], x_std := Some [[Fin 1]], x_is_fitted := True\<rparr>)"
  by (simp add: fit_x_def fit_x_stats_def vector_scaler_init_def reduce_ex)


subsection \<open>VectorScaler: the unfitted-scaler error\<close>

lemma fit_x_mixed:
  "fit_x (vector_scaler_init None) mixed_array
     = Inr ((vector_scaler_init None)\<lparr>x_mean := Some [[Fin 5, Fin 2]],
              x_std := Some [[Fin 0, Fin 1]], x_is_fitted := True\<rparr>)"
  by (simp add: fit_x_def fit_x_stats_def vector_scaler_init_def reduce_axis0_def mixed_array_def
      shape1_def shape2_def np_std_constant np_mean_ex np_std_ex)

text \<open>
  Claim C6, as stated, fails in both directions. A call of \<^verbatim>\<open>fit_x\<close> that raises (a
  target index beyond the last feature) leaves the scaler unfitted, so
  \<^verbatim>\<open>inverse_transform_x\<close> raises the error although \<^verbatim>\<open>fit_x\<close> was called; and a fitted
  scaler raises, for an array whose shape does not broadcast against the statistics,
  the \<^verbatim>\<open>ValueError\<close> of the multiplication.
\<close>

theorem inverse_transform_after_failed_fit:
  "list_ex calls_fit_x [Fit_x mixed_array]
   \<and> fit_x (vector_scaler_init (Some [2])) mixed_array = Inl IndexError
   \<and> inverse_transform_x (after_calls (vector_scaler_init (Some [2])) [Fit_x mixed_array]) mixed_array
       = Inl (ValueError ''Not fitted on X.'')
   \<and> fit_x_returned (vector_scaler_init None) [Fit_x mixed_array]
   \<and> inverse_transform_x (after_calls (vector_scaler_init None) [Fit_x mixed_array]) wide_array
       = Inl (ValueError ''operands could not be broadcast together'')"
proof -
  have f: "fit_x (vector_scaler_init (Some [2])) mixed_array = Inl IndexError"
    by (simp add: fit_x_def fit_x_stats_def vector_scaler_init_def take_cols_def mixed_array_def)
  have "inverse_transform_x (after_calls (vector_scaler_init (Some [2])) [Fit_x mixed_array]) mixed_array
       = Inl (ValueError ''Not fitted on X.'')"
    by (simp add: f) (simp add: inverse_transform_x_def vector_scaler_init_def)
  moreover have "inverse_transform_x (after_calls (vector_scaler_init None) [Fit_x mixed_array]) wide_array
       = Inl (ValueError ''operands could not be broadcast together'')"
    by (simp add: fit_x_mixed)
       (simp add: inverse_transform_x_def vector_scaler_init_def unstandardize_def arr3_op_def
          arr2_op_def broadcast_def wide_array_def)
  moreover have "fit_x_returned (vector_scaler_init None) [Fit_x mixed_array]"
    by (simp add: fit_x_mixed returned_def)
  ultimately show ?thesis using f by simp
qed

text \<open>
  Claim C6, amended: on a scaler reached from a new one by any calls of its methods,
  \<^verbatim>\<open>inverse_transform_x\<close> raises \<^verbatim>\<open>ValueError('Not fitted on X.')\<close> exactly when no
  call has run \<^verbatim>\<open>fit_x\<close> to its end, and \<^verbatim>\<open>inverse_transform_y\<close> raises
  \<^verbatim>\<open>ValueError('Not fitted on y.')\<close> exactly when no call has run \<^verbatim>\<open>fit_y\<close> to its
  end; once fitted, the statistics are present and, for an array of their shape, the
  result is \<open>X * std + mean\<close>, entry by entry.
\<close>

theorem inverse_transform_unfitted:
  assumes "s = after_calls (vector_scaler_init targets) cs"
  shows "(inverse_transform_x s X = Inl (ValueError ''Not fitted on X.'')
            \<longleftrightarrow> \<not> fit_x_returned (vector_scaler_init targets) cs)
       \<and> (inverse_transform_y s y = Inl (ValueError ''Not fitted on y.'')
            \<longleftrightarrow> \<not> fit_y_returned (vector_scaler_init targets) cs)
       \<and> (fit_x_returned (vector_scaler_init targets) cs \<longrightarrow>
            (\<exists>m d. x_mean s = Some m \<and> x_std s = Some d
                \<and> (fitted_shape m X \<longrightarrow>
                     inverse_transform_x s X
                       = Inr (map (\<lambda>S. map2 (map2 v_add) (map2 (map2 v_mul) S d) m) X))))
       \<and> (fit_y_returned (vector_scaler_init targets) cs \<longrightarrow>
            (\<exists>m d. y_mean s = Some m \<and> y_std s = Some d
                \<and> (fitted_shape m y \<longrightarrow>
                     inverse_transform_y s y
                       = Inr (map (\<lambda>S. map2 (map2 v_add) (map2 (map2 v_mul) S d) m) y))))"
proof -
  note h = scaler_history[of targets cs, folded assms]
  have x1: "inverse_transform_x s X = Inl (ValueError ''Not fitted on X.'')
            \<longleftrightarrow> \<not> fit_x_returned (vector_scaler_init targets) cs"
    using h(1,2) unstandardize_error[of _ _ X "ValueError ''Not fitted on X.''"]
    by (auto simp: inverse_transform_x_def x_stats_ok_def)
  have y1: "inverse_transform_y s y = Inl (ValueError ''Not fitted on y.'')
            \<longleftrightarrow> \<not> fit_y_returned (vector_scaler_init targets) cs"
    using h(3,4) unstandardize_error[of _ _ y "ValueError ''Not fitted on y.''"]
    by (auto simp: inverse_transform_y_def y_stats_ok_def)
  have x2: "fit_x_returned (vector_scaler_init targets) cs \<longrightarrow>
            (\<exists>m d. x_mean s = Some m \<and> x_std s = Some d
                \<and> (fitted_shape m X \<longrightarrow>
                     inverse_transform_x s X
                       = Inr (map (\<lambda>S. map2 (map2 v_add) (map2 (map2 v_mul) S d) m) X)))"
    using h(1,2) unstandardize_fitted_shape[of _ X]
    by (auto simp: inverse_transform_x_def x_stats_ok_def)
  have y2: "fit_y_returned (vector_scaler_init targets) cs \<longrightarrow>
            (\<exists>m d. y_mean s = Some m \<and> y_std s = Some d
                \<and> (fitted_shape m y \<longrightarrow>
                     inverse_transform_y s y
                       = Inr (map (\<lambda>S. map2 (map2 v_add) (map2 (map2 v_mul) S d) m) y)))"
    using h(3,4) unstandardize_fitted_shape[of _ y]
    by (auto simp: inverse_transform_y_def y_stats_ok_def)
  from x1 y1 x2 y2 show ?thesis by blast
qed

theorem inverse_transform_unfitted_witness:
  "fit_x_returned (vector_scaler_init None) [Fit_x example_array]
   \<and> \<not> fit_y_returned (vector_scaler_init None) [Fit_x example_array]
   \<and> inverse_transform_x (after_calls (vector_scaler_init None) [Fit_x example_array])
        [[[Fin (- 1)]], [[Fin 1]]] = Inr example_array
   \<and> inverse_transform_y (after_calls (vector_scaler_init None) [Fit_x example_array])
        [[[Fin (- 1)]], [[Fin 1]]] = Inl (ValueError ''Not fitted on y.'')
   \<and> inverse_transform_x (after_calls (vector_scaler_init None) [])
        [[[Fin (- 1)]], [[Fin 1]]] = Inl (ValueError ''Not fitted on X.'')"
proof -
  let ?cs = "[Fit_x example_array]"
  let ?s = "after_calls (vector_scaler_init None) ?cs"
  let ?Z = "[[[Fin (- 1)]], [[Fin 1]]]"
  have rx: "fit_x_returned (vector_scaler_init None) ?cs"
    by (simp add: fit_x_example returned_def)
  have ry: "\<not> fit_y_returned (vector_scaler_init None) ?cs"
    by (simp add: fit_x_example)
  have m: "x_mean ?s = Some [[Fin 2]]" "x_std ?s = Some [[Fin 1]]"
    by (simp_all add: fit_x_example)
  have sh: "fitted_shape [[Fin 2]] ?Z"
    by (simp add: fitted_shape_def same_shape2_def)
  from inverse_transform_unfitted[OF refl, of None ?cs ?Z ?Z] rx ry m sh
  have "inverse_transform_x ?s ?Z = Inr (map (\<lambda>S. map2 (map2 v_add) (map2 (map2 v_mul) S [[Fin 1]]) [[Fin 2]]) ?Z)"
    and "inverse_transform_y ?s ?Z = Inl (ValueError ''Not fitted on y.'')"
    by auto
  moreover from inverse_transform_unfitted[OF refl, of None "[]" ?Z ?Z]
  have "inverse_transform_x (after_calls (vector_scaler_init None) []) ?Z = Inl (ValueError ''Not fitted on X.'')"
    by simp
  ultimately show ?thesis using rx ry by (simp add: example_array_def)
qed

subsection \<open>VectorScaler: the round trip\<close>




subsection \<open>VectorScaler: targets that are not the leading columns\<close>

text \<open>
  Claim C5 does not hold of the code. \<^verbatim>\<open>fit_x\<close> puts the statistics of the target
  columns first and the zeros and ones after them, whatever the positions of the
  targets. With the second of two columns as the only target, the first column, which
  is not a target, is shifted by the mean of the target (5 becomes 3), and the target
  column is left as it is.
\<close>

theorem fit_x_trailing_target:
  "fit_x (vector_scaler_init (Some [1])) mixed_array
     = Inr ((vector_scaler_init (Some [1]))\<lparr>x_mean := Some [[Fin 2, Fin 0]],
              x_std := Some [[Fin 1, Fin 1]], x_is_fitted := True\<rparr>)
   \<and> transform_x ((vector_scaler_init (Some [1]))\<lparr>x_mean := Some [[Fin 2, Fin 0]],
              x_std := Some [[Fin 1, Fin 1]], x_is_fitted := True\<rparr>) mixed_array
     = Inr [[[Fin 3, Fin 1]], [[Fin 3, Fin 3]]]"
proof -
  have tk: "take_cols mixed_array [1] = Inr example_array"
    by (simp add: take_cols_def mixed_array_def example_array_def)
  have sh: "shape1 mixed_array = 1" "shape2 mixed_array = 2"
    by (simp_all add: mixed_array_def shape1_def shape2_def)
  have "fit_x (vector_scaler_init (Some [1])) mixed_array
     = Inr ((vector_scaler_init (Some [1]))\<lparr>x_mean := Some [[Fin 2, Fin 0]],
              x_std := Some [[Fin 1, Fin 1]], x_is_fitted := True\<rparr>)"
    by (simp add: fit_x_def fit_x_stats_def vector_scaler_init_def tk sh reduce_ex Let_def
        np_full_def concatenate1_def)
  moreover have "transform_x ((vector_scaler_init (Some [1]))\<lparr>x_mean := Some [[Fin 2, Fin 0]],
              x_std := Some [[Fin 1, Fin 1]], x_is_fitted := True\<rparr>) mixed_array
     = Inr [[[Fin 3, Fin 1]], [[Fin 3, Fin 3]]]"
    by (simp add: vector_scaler_init_def transform_x_def standardize_def arr3_op_def arr2_op_def
        broadcast_def mixed_array_def)
  ultimately show ?thesis by blast
qed

lemma collect_Inr_D:
  "collect rs = Inr xs \<Longrightarrow> list_all2 (\<lambda>r x. r = Inr x) rs xs"
  by (induction rs arbitrary: xs) (auto split: sum.splits)

lemma take_rows_length: "take_rows row js = Inr r \<Longrightarrow> length r = length js"
  by (simp add: take_rows_Inr_iff)

lemma take_cols_rect:
  assumes "take_cols X ts = Inr Xt" "rect3 p q X"
  shows "rect3 p (length ts) Xt" "length Xt = length X"
proof -
  from collect_Inr_D[OF assms(1)[unfolded take_cols_def]]
  have a: "list_all2 (\<lambda>S St. collect (map (\<lambda>row. take_rows row ts) S) = Inr St) X Xt"
    by (simp add: list_all2_map1)
  then show "length Xt = length X" by (simp add: list_all2_lengthD)
  have "length St = p \<and> list_all (\<lambda>r. length r = length ts) St"
    if "St \<in> set Xt" for St
  proof -
    from that obtain i where i: "i < length Xt" "St = Xt ! i"
      by (auto simp: in_set_conv_nth)
    with a have "X ! i \<in> set X" "collect (map (\<lambda>row. take_rows row ts) (X ! i)) = Inr St"
      by (simp_all add: list_all2_conv_all_nth)
    then obtain S where S: "S \<in> set X" and c: "collect (map (\<lambda>row. take_rows row ts) S) = Inr St"
      by blast
    from collect_Inr_D[OF c] have b: "list_all2 (\<lambda>row r. take_rows row ts = Inr r) S St"
      by (simp add: list_all2_map1)
    from S assms(2) have "length S = p" by (simp add: rect3_def list_all_iff)
    with b have "length St = p" by (simp add: list_all2_lengthD)
    moreover from b have "list_all (\<lambda>r. length r = length ts) St"
      using take_rows_length
      by (fastforce simp: list_all_iff list_all2_conv_all_nth in_set_conv_nth)
    ultimately show ?thesis by blast
  qed
  then show "rect3 p (length ts) Xt" by (simp add: rect3_def list_all_iff)
qed

lemma rect3_shape:
  assumes "rect3 p q X" "X \<noteq> []" "0 < p"
  shows "shape1 X = p" "shape2 X = q"
  using assms by (cases X; cases "hd X"; auto simp: rect3_def shape1_def shape2_def)+

lemma reduce_axis0_shape:
  "length (reduce_axis0 f X) = shape1 X"
  "t < shape1 X \<Longrightarrow> length (reduce_axis0 f X ! t) = shape2 X"
  by (simp_all add: reduce_axis0_def)

lemma v_unscaled: "v_div (v_sub x (Fin 0)) (Fin 1) = x"
  by (cases x) simp_all

lemma fit_x_padding:
  assumes t: "vs_targets s = Some ts" and fit: "fit_x s X = Inr s'"
    and X: "rect3 p q X" "X \<noteq> []" "0 < p"
  shows "\<exists>m d. x_mean s' = Some m \<and> x_std s' = Some d
           \<and> length ts \<le> q \<and> length m = p \<and> length d = p
           \<and> (\<forall>t<p. length (m ! t) = q \<and> length (d ! t) = q
                  \<and> (\<forall>v. length ts \<le> v \<and> v < q \<longrightarrow> m ! t ! v = Fin 0 \<and> d ! t ! v = Fin 1))"
proof -
  let ?k = "length ts"
  from fit t obtain Xt zeros ones m d where
    tk: "take_cols X ts = Inr Xt"
    and z: "np_full (Fin 0) (int (shape1 X)) (int (shape2 X) - int ?k) = Inr zeros"
    and o: "np_full (Fin 1) (int (shape1 X)) (int (shape2 X) - int ?k) = Inr ones"
    and m: "concatenate1 (reduce_axis0 np_mean Xt) zeros = Inr m"
    and d: "concatenate1 (reduce_axis0 np_std Xt) ones = Inr d"
    and s': "s' = s\<lparr>x_mean := Some m, x_std := Some d, x_is_fitted := True\<rparr>"
    by (auto simp: fit_x_def fit_x_stats_def Let_def split: sum.splits)
  note sh = rect3_shape[OF X]
  from take_cols_rect[OF tk X(1)] X(2) have "rect3 p ?k Xt" "Xt \<noteq> []" by auto
  note sht = rect3_shape[OF this X(3)]
  from z sh have kq: "?k \<le> q" and zeros: "zeros = replicate p (replicate (q - ?k) (Fin 0))"
    by (auto simp: np_full_def nat_diff_distrib' split: if_splits)
  from o sh kq have ones: "ones = replicate p (replicate (q - ?k) (Fin 1))"
    by (auto simp: np_full_def nat_diff_distrib' split: if_splits)
  from m have m': "m = map2 (@) (reduce_axis0 np_mean Xt) zeros"
    by (auto simp: concatenate1_def split: if_splits)
  from d have d': "d = map2 (@) (reduce_axis0 np_std Xt) ones"
    by (auto simp: concatenate1_def split: if_splits)
  have lm: "length m = p" "length d = p"
    by (simp_all add: m' d' zeros ones reduce_axis0_shape sht)
  have rows: "length (m ! t) = q \<and> length (d ! t) = q
       \<and> (\<forall>v. ?k \<le> v \<and> v < q \<longrightarrow> m ! t ! v = Fin 0 \<and> d ! t ! v = Fin 1)" if "t < p" for t
  proof -
    have "m ! t = reduce_axis0 np_mean Xt ! t @ replicate (q - ?k) (Fin 0)"
      "d ! t = reduce_axis0 np_std Xt ! t @ replicate (q - ?k) (Fin 1)"
      using that by (simp_all add: m' d' zeros ones reduce_axis0_shape sht)
    moreover have "length (reduce_axis0 np_mean Xt ! t) = ?k" "length (reduce_axis0 np_std Xt ! t) = ?k"
      using that by (simp_all add: reduce_axis0_shape sht)
    ultimately show ?thesis using kq by (auto simp: nth_append)
  qed
  show ?thesis using s' kq lm rows by auto
qed

lemma standardize_fitted_shape:
  assumes "fitted_shape m X" "same_shape2 m d"
  shows "standardize (Some m) (Some d) X
           = Inr (map (\<lambda>S. map2 (map2 v_div) (map2 (map2 v_sub) S m) d) X)"
proof -
  let ?sub = "map (\<lambda>S. map2 (map2 v_sub) S m) X"
  have 1: "arr3_op v_sub X m = Inr ?sub" by (rule arr3_op_fitted_shape[OF assms(1)])
  have "fitted_shape d ?sub"
    by (rule fitted_shape_cong[OF assms(2) fitted_shape_map2[OF assms(1)]])
  from arr3_op_fitted_shape[OF this, of v_div]
  have 2: "arr3_op v_div ?sub d = Inr (map (\<lambda>S. map2 (map2 v_div) (map2 (map2 v_sub) S m) d) X)"
    by (simp add: comp_def)
  show ?thesis by (simp only: standardize_def 1 2 option.case sum.case)
qed

text \<open>
  What the code does guarantee in target-restricted mode: after \<^verbatim>\<open>fit_x\<close> on an array
  of shape \<open>(n, p, q)\<close>, \<^verbatim>\<open>transform_x\<close> leaves the last \<open>q - len(targets)\<close> columns of
  every array of that shape as they are. These are the columns that are not targets
  exactly when the targets are the leading columns.
\<close>

theorem transform_x_trailing_columns:
  assumes t: "vs_targets s = Some ts" and fit: "fit_x s X = Inr s'"
    and X: "rect3 p q X" "X \<noteq> []" "0 < p"
    and X': "rect3 p q X'"
  shows "\<exists>Z. transform_x s' X' = Inr Z \<and> length Z = length X'
           \<and> (\<forall>i<length X'. \<forall>t<p. \<forall>v. length ts \<le> v \<and> v < q \<longrightarrow>
                  Z ! i ! t ! v = X' ! i ! t ! v)"
proof -
  from fit_x_padding[OF t fit X] obtain m d where
    m: "x_mean s' = Some m" and d: "x_std s' = Some d"
    and lm: "length m = p" "length d = p"
    and rows: "\<forall>t<p. length (m ! t) = q \<and> length (d ! t) = q
                  \<and> (\<forall>v. length ts \<le> v \<and> v < q \<longrightarrow> m ! t ! v = Fin 0 \<and> d ! t ! v = Fin 1)"
    by blast
  have md: "same_shape2 m d"
    using lm rows by (simp add: same_shape2_def list_all2_conv_all_nth)
  have S: "length S = p \<and> (\<forall>t<p. length (S ! t) = q)" if "S \<in> set X'" for S
    using X' that by (auto simp: rect3_def list_all_iff)
  have sh: "fitted_shape m X'"
    using lm rows S by (simp add: fitted_shape_def same_shape2_def list_all_iff list_all2_conv_all_nth)
  let ?Z = "map (\<lambda>S. map2 (map2 v_div) (map2 (map2 v_sub) S m) d) X'"
  have Z: "transform_x s' X' = Inr ?Z"
    unfolding transform_x_def m d by (rule standardize_fitted_shape[OF sh md])
  have "?Z ! i ! t ! v = X' ! i ! t ! v"
    if i: "i < length X'" and t: "t < p" and v: "length ts \<le> v" "v < q" for i t v
  proof -
    from i have Si: "length (X' ! i) = p" "length (X' ! i ! t) = q"
      using S[of "X' ! i"] t by simp_all
    from rows t v have r: "length (m ! t) = q" "length (d ! t) = q"
      "m ! t ! v = Fin 0" "d ! t ! v = Fin 1" by simp_all
    show ?thesis
      using i t v Si lm r by (simp add: v_unscaled)
  qed
  then show ?thesis using Z by auto
qed

end
